theory Spec2Isabelle
  imports Complex_Main
begin

section \<open>Python values used by the attendance server\<close>

text \<open>
  Exceptions of the source become values. Every handler of the modelled functions is
  \<^verbatim>\<open>except Exception\<close>, so the kind of the exception never decides a result; it is kept
  so that each raise of the source is a visible branch.
\<close>

datatype exn = ValueError | IndexError | KeyError | APIError | QueueFull

subsection \<open>\<^verbatim>\<open>int(str)\<close>, \<^verbatim>\<open>str.split(":")\<close> and \<^verbatim>\<open>datetime.time\<close>\<close>

text \<open>
  A string is a list of code points below 256 (the time columns of the schedule table
  are rendered as \<^verbatim>\<open>HH:MM:SS\<close>). \<^verbatim>\<open>int\<close> skips white space at both ends, reads an
  optional sign and decimal digits that may be separated by single underscores, and
  raises \<^verbatim>\<open>ValueError\<close> otherwise. The white space of \<^verbatim>\<open>int\<close> is tab, line feed, vertical
  tab, form feed, carriage return and space, and of the code points above 127 the next
  line character U+0085 and the no-break space U+00A0; the separators 0x1c to 0x1f,
  which \<^verbatim>\<open>str.strip\<close> removes, are not skipped. The only decimal digits below 256 are
  \<^verbatim>\<open>0\<close> to \<^verbatim>\<open>9\<close>. A string of more than 4300 digits is refused with \<^verbatim>\<open>ValueError\<close>
  (the default of \<^verbatim>\<open>sys.int_max_str_digits\<close>); sign, underscores and white space do
  not count.
\<close>

definition is_space :: "char \<Rightarrow> bool" where
  "is_space c = (of_char c \<in> {9, 10, 11, 12, 13, 32, 133, 160 :: nat})"

definition MAX_STR_DIGITS :: nat where
  "MAX_STR_DIGITS = 4300"

definition is_digit :: "char \<Rightarrow> bool" where
  "is_digit c = (48 \<le> (of_char c :: nat) \<and> (of_char c :: nat) \<le> 57)"

definition digit_val :: "char \<Rightarrow> int" where
  "digit_val c = int (of_char c) - 48"

definition strip :: "string \<Rightarrow> string" where
  "strip s = rev (dropWhile is_space (rev (dropWhile is_space s)))"

fun digits_value :: "int \<Rightarrow> string \<Rightarrow> exn + int" where
  "digits_value acc [] = Inr acc"
| "digits_value acc [c] =
     (if is_digit c then Inr (acc * 10 + digit_val c) else Inl ValueError)"
| "digits_value acc (c # d # ds) =
     (if is_digit c then digits_value (acc * 10 + digit_val c) (d # ds)
      else if c = CHR ''_'' \<and> is_digit d then digits_value (acc * 10 + digit_val d) ds
      else Inl ValueError)"

definition unsigned_int :: "string \<Rightarrow> exn + int" where
  "unsigned_int s =
     (case s of
        [] \<Rightarrow> Inl ValueError
      | c # cs \<Rightarrow>
          if \<not> is_digit c then Inl ValueError
          else if length (filter is_digit s) > MAX_STR_DIGITS then Inl ValueError
          else digits_value (digit_val c) cs)"

definition py_int :: "string \<Rightarrow> exn + int" where
  "py_int s =
     (case strip s of
        [] \<Rightarrow> Inl ValueError
      | c # cs \<Rightarrow>
          if c = CHR ''-'' then
            (case unsigned_int cs of Inl e \<Rightarrow> Inl e | Inr n \<Rightarrow> Inr (- n))
          else if c = CHR ''+'' then unsigned_int cs
          else unsigned_int (c # cs))"

fun split_colon :: "string \<Rightarrow> string list" where
  "split_colon [] = [[]]"
| "split_colon (c # cs) =
     (if c = CHR '':'' then [] # split_colon cs
      else (case split_colon cs of
              [] \<Rightarrow> [[c]]
            | p # ps \<Rightarrow> (c # p) # ps))"

record py_time =
  hour :: int
  minute :: int
  second :: int

text \<open>The constructor \<^verbatim>\<open>datetime.time(h, m, s)\<close> raises \<^verbatim>\<open>ValueError\<close> out of range.\<close>

definition datetime_time :: "int \<Rightarrow> int \<Rightarrow> int \<Rightarrow> exn + py_time" where
  "datetime_time h m s =
     (if 0 \<le> h \<and> h \<le> 23 \<and> 0 \<le> m \<and> m \<le> 59 \<and> 0 \<le> s \<and> s \<le> 59
      then Inr \<lparr>hour = h, minute = m, second = s\<rparr>
      else Inl ValueError)"

subsection \<open>Formatting with \<^verbatim>\<open>:02d\<close>\<close>

definition digit_char :: "nat \<Rightarrow> char" where
  "digit_char n = char_of (48 + n mod 10)"

fun dec_digits :: "nat \<Rightarrow> string" where
  "dec_digits n =
     (if n < 10 then [digit_char n] else dec_digits (n div 10) @ [digit_char (n mod 10)])"

declare dec_digits.simps [simp del]

definition format_02d :: "int \<Rightarrow> string" where
  "format_02d x =
     (if x < 0 then CHR ''-'' # dec_digits (nat (- x))
      else if x < 10 then CHR ''0'' # dec_digits (nat x)
      else dec_digits (nat x))"

definition format_hhmm :: "int \<Rightarrow> string" where
  "format_hhmm x = format_02d (x div 60) @ '':'' @ format_02d (x mod 60)"

section \<open>Time helpers\<close>

definition time_to_minutes :: "py_time \<Rightarrow> int" where
  "time_to_minutes t = hour t * 60 + minute t"

text \<open>
  \<^verbatim>\<open>parse_time_string\<close> reads \<^verbatim>\<open>parts[0]\<close>, then \<^verbatim>\<open>parts[1]\<close> (an \<^verbatim>\<open>IndexError\<close> when the
  string has no colon), then \<^verbatim>\<open>parts[2]\<close> when there is one, and builds the time last.
\<close>

definition parse_time_string :: "string \<Rightarrow> exn + py_time" where
  "parse_time_string time_str =
     (case split_colon time_str of
        [] \<Rightarrow> Inl IndexError
      | p0 # rest0 \<Rightarrow>
          (case py_int p0 of
             Inl e \<Rightarrow> Inl e
           | Inr h \<Rightarrow>
               (case rest0 of
                  [] \<Rightarrow> Inl IndexError
                | p1 # rest1 \<Rightarrow>
                    (case py_int p1 of
                       Inl e \<Rightarrow> Inl e
                     | Inr m \<Rightarrow>
                         (case rest1 of
                            [] \<Rightarrow> datetime_time h m 0
                          | p2 # _ \<Rightarrow>
                              (case py_int p2 of
                                 Inl e \<Rightarrow> Inl e
                               | Inr s \<Rightarrow> datetime_time h m s))))))"

section \<open>Storage, configuration and global state\<close>

text \<open>
  The storage service is a set of tables, each a list of rows in the order the service
  returns them. Every \<^verbatim>\<open>.execute()\<close> of the source is one request; \<open>requests\<close> records the
  requests sent so far, so that "no storage access" is a statement about the state. A
  request raises exactly when the fault oracle \<open>fails\<close> of the call says so (an
  unreachable service, a rejected insert, ...).
\<close>

datatype request =
    SelectSchedules | SelectStudent | SelectEnrollment | SelectSession | InsertSession
  | SelectAttendance | InsertAttendance | SelectCourseAttendance | InsertCourseAttendance

record section_ref =
  sec_course_id :: string
  sec_name :: string

text \<open>
  A row of the schedule query carries the joined section (\<^verbatim>\<open>sections(course_id, name)\<close>);
  the columns are taken to be present and of the types the source reads them at.
\<close>

record schedule_row =
  sched_section_id :: string
  day_of_week :: string
  sched_start_time :: string
  sched_end_time :: string
  sections :: section_ref

record student_row =
  student_pk :: string
  matric_no :: string
  nickname :: string

record enrollment_row =
  enr_student_id :: string
  enr_section_id :: string

record session_row =
  session_pk :: string
  ses_section_id :: string
  class_date :: string
  ses_start_time :: string
  ses_status :: string

record attendance_row =
  att_pk :: string
  att_student_id :: string
  att_class_session_id :: string
  att_status :: string
  att_timestamp :: string

record course_attendance_row =
  ca_student_id :: string
  ca_course_id :: string
  absence_count :: int

record database =
  section_schedules :: "schedule_row list"
  students :: "student_row list"
  student_section_enrollments :: "enrollment_row list"
  class_sessions :: "session_row list"
  attendance_records :: "attendance_row list"
  student_course_attendance :: "course_attendance_row list"
  requests :: "request list"

definition send :: "request \<Rightarrow> database \<Rightarrow> database" where
  "send r d = d\<lparr>requests := requests d @ [r]\<rparr>"

text \<open>The entries of \<^verbatim>\<open>CONFIG\<close> that the modelled functions read.\<close>

definition EARLY_WINDOW_MINUTES :: int where "EARLY_WINDOW_MINUTES = 15"
definition LATE_GRACE_MINUTES :: int where "LATE_GRACE_MINUTES = 15"
definition END_BUFFER_MINUTES :: int where "END_BUFFER_MINUTES = 15"
definition WINDOW_CHECK_INTERVAL :: real where "WINDOW_CHECK_INTERVAL = 30"
definition MAX_CAMERA_RETRIES :: nat where "MAX_CAMERA_RETRIES = 5"
definition PROCESS_EVERY_N_FRAMES :: nat where "PROCESS_EVERY_N_FRAMES = 5"

text \<open>The dictionary built by \<^verbatim>\<open>get_current_attendance_window\<close>.\<close>

record window =
  section_id :: string
  course_id :: string
  section_name :: string
  start_time :: string
  end_time :: string
  is_late :: bool
  window_start :: string
  late_cutoff :: string
  window_end :: string
  status :: string

text \<open>The dictionary \<^verbatim>\<open>resp.data[0]\<close> of the student lookup (columns \<^verbatim>\<open>id, nickname\<close>).\<close>

record student =
  stu_id :: string
  stu_nickname :: string

text \<open>
  The module's globals. \<open>supabase\<close> says whether the client was created (\<^verbatim>\<open>None\<close>
  otherwise); \<open>student_cache\<close> is the memo table of \<^verbatim>\<open>lru_cache\<close> on
  \<^verbatim>\<open>get_student_cached\<close>, which also remembers a \<^verbatim>\<open>None\<close> result. Eviction (at 500
  entries) is not modelled: an evicted entry behaves as one never looked up.
\<close>

record state =
  supabase :: bool
  current_attendance_window :: "window option"
  last_window_check :: real
  attendance_logged_today :: "string \<rightharpoonup> string set"
  student_cache :: "string \<rightharpoonup> student option"
  db :: database

text \<open>
  What the clock returns at each place the source reads it: \<^verbatim>\<open>time.time()\<close>, the day name
  and time of \<^verbatim>\<open>datetime.datetime.now()\<close>, \<^verbatim>\<open>datetime.date.today().isoformat()\<close>,
  \<^verbatim>\<open>datetime.datetime.now().time().isoformat()\<close>, and the date and timestamp of
  \<^verbatim>\<open>datetime.datetime.utcnow()\<close>.
\<close>

record clock =
  time_time :: real
  current_day :: string
  current_time :: py_time
  today :: string
  now_time_iso :: string
  utc_today :: string
  utc_now_iso :: string

section \<open>Automatic attendance window\<close>

text \<open>The \<^verbatim>\<open>for schedule in query.data\<close> loop, with its early return.\<close>

fun scan_schedules :: "int \<Rightarrow> schedule_row list \<Rightarrow> exn + window option" where
  "scan_schedules current_minutes [] = Inr None"
| "scan_schedules current_minutes (schedule # rest) =
     (case parse_time_string (sched_start_time schedule) of
        Inl e \<Rightarrow> Inl e
      | Inr start_t \<Rightarrow>
          (case parse_time_string (sched_end_time schedule) of
             Inl e \<Rightarrow> Inl e
           | Inr end_t \<Rightarrow>
               (let start_minutes = time_to_minutes start_t;
                    end_minutes = time_to_minutes end_t;
                    w_start = start_minutes - EARLY_WINDOW_MINUTES;
                    l_cutoff = start_minutes + LATE_GRACE_MINUTES;
                    w_end = end_minutes - END_BUFFER_MINUTES
                in if w_start \<le> current_minutes \<and> current_minutes \<le> w_end then
                     (let late = (current_minutes > l_cutoff)
                      in Inr (Some \<lparr>section_id = sched_section_id schedule,
                                     course_id = sec_course_id (sections schedule),
                                     section_name = sec_name (sections schedule),
                                     start_time = sched_start_time schedule,
                                     end_time = sched_end_time schedule,
                                     is_late = late,
                                     window_start = format_hhmm w_start,
                                     late_cutoff = format_hhmm l_cutoff,
                                     window_end = format_hhmm w_end,
                                     status = (if late then ''late'' else ''present'')\<rparr>))
                   else scan_schedules current_minutes rest)))"

text \<open>The body of the \<^verbatim>\<open>try\<close>: the query for today's rows, then the loop.\<close>

text \<open>
  The rows the query \<^verbatim>\<open>.eq("day_of_week", current_day)\<close> returns when it succeeds.
\<close>

definition schedules_for_day :: "string \<Rightarrow> database \<Rightarrow> schedule_row list" where
  "schedules_for_day day d = filter (\<lambda>r. day_of_week r = day) (section_schedules d)"

text \<open>The body of the \<^verbatim>\<open>try\<close>: the query for today's rows, then the loop.\<close>

definition window_detection ::
  "(request \<Rightarrow> bool) \<Rightarrow> clock \<Rightarrow> database \<Rightarrow> database \<times> (exn + window option)" where
  "window_detection fails clk d =
     (let current_minutes = time_to_minutes (current_time clk);
          d1 = send SelectSchedules d
      in if fails SelectSchedules then (d1, Inl APIError)
         else (let data = schedules_for_day (current_day clk) d1
               in if data = [] then (d1, Inr None)
                  else (d1, scan_schedules current_minutes data)))"

definition get_current_attendance_window ::
  "(request \<Rightarrow> bool) \<Rightarrow> clock \<Rightarrow> state \<Rightarrow> state \<times> window option" where
  "get_current_attendance_window fails clk s =
     (let now = time_time clk
      in if now - last_window_check s < WINDOW_CHECK_INTERVAL
         then (s, current_attendance_window s)
         else (let s1 = s\<lparr>last_window_check := now\<rparr>
               in if \<not> supabase s1
                  then (s1\<lparr>current_attendance_window := None\<rparr>, None)
                  else (case window_detection fails clk (db s1) of
                          (d, Inl e) \<Rightarrow> (s1\<lparr>current_attendance_window := None, db := d\<rparr>, None)
                        | (d, Inr w) \<Rightarrow> (s1\<lparr>current_attendance_window := w, db := d\<rparr>, w))))"

section \<open>Attendance logging\<close>

text \<open>
  \<^verbatim>\<open>get_student_cached\<close>: a memoised lookup. A result is stored whatever it is, also the
  \<^verbatim>\<open>None\<close> of a failed or empty query, since the exception is handled inside the function.
\<close>

definition get_student_cached ::
  "(request \<Rightarrow> bool) \<Rightarrow> string \<Rightarrow> state \<Rightarrow> state \<times> student option" where
  "get_student_cached fails matric s =
     (case student_cache s matric of
        Some cached \<Rightarrow> (s, cached)
      | None \<Rightarrow>
          (if \<not> supabase s then (s\<lparr>student_cache := (student_cache s)(matric \<mapsto> None)\<rparr>, None)
           else (let d = send SelectStudent (db s) in
                 if fails SelectStudent
                 then (s\<lparr>student_cache := (student_cache s)(matric \<mapsto> None), db := d\<rparr>, None)
                 else (let resp = filter (\<lambda>r. matric_no r = matric) (students d);
                           res = (case resp of
                                    [] \<Rightarrow> None
                                  | r # _ \<Rightarrow> Some \<lparr>stu_id = student_pk r,
                                                   stu_nickname = nickname r\<rparr>)
                       in (s\<lparr>student_cache := (student_cache s)(matric \<mapsto> res), db := d\<rparr>,
                           res)))))"

text \<open>
  \<^verbatim>\<open>get_or_create_class_session\<close>: today's session of the section, created when the
  query finds none. Any exception gives \<^verbatim>\<open>None\<close>. The second argument is
  \<^verbatim>\<open>start_time_str\<close> (\<^verbatim>\<open>None\<close> by default); \<^verbatim>\<open>start_time_str or ...\<close> falls back to the
  current time for \<^verbatim>\<open>None\<close> and for the empty string.
\<close>

definition get_or_create_class_session ::
  "(request \<Rightarrow> bool) \<Rightarrow> clock \<Rightarrow> string \<Rightarrow> string option \<Rightarrow> state \<Rightarrow> state \<times> string option"
  where
  "get_or_create_class_session fails clk sec start_time_str s =
     (if \<not> supabase s then (s, None)
      else (let d1 = send SelectSession (db s) in
            if fails SelectSession then (s\<lparr>db := d1\<rparr>, None)
            else (case filter (\<lambda>r. ses_section_id r = sec \<and> class_date r = today clk)
                         (class_sessions d1) of
                    r # _ \<Rightarrow> (s\<lparr>db := d1\<rparr>, Some (session_pk r))
                  | [] \<Rightarrow>
                      (let session_id = ''session_'' @ sec @ ''_'' @ today clk;
                           d2 = send InsertSession d1
                       in if fails InsertSession then (s\<lparr>db := d2\<rparr>, None)
                          else (s\<lparr>db := d2\<lparr>class_sessions := class_sessions d2 @
                                    [\<lparr>session_pk = session_id,
                                      ses_section_id = sec,
                                      class_date = today clk,
                                      ses_start_time =
                                        (case start_time_str of
                                           None \<Rightarrow> now_time_iso clk
                                         | Some t \<Rightarrow> if t = [] then now_time_iso clk else t),
                                      ses_status = ''active''\<rparr>]\<rparr>\<rparr>,
                                Some session_id)))))"

text \<open>
  \<^verbatim>\<open>attendance_logged_today[section_id].add(student_matric)\<close>; a missing key would raise
  \<^verbatim>\<open>KeyError\<close>.
\<close>

definition mark_logged :: "string \<Rightarrow> string \<Rightarrow> state \<Rightarrow> exn + state" where
  "mark_logged sec matric s =
     (case attendance_logged_today s sec of
        None \<Rightarrow> Inl KeyError
      | Some logged \<Rightarrow>
          Inr (s\<lparr>attendance_logged_today :=
                   (attendance_logged_today s)(sec \<mapsto> insert matric logged)\<rparr>))"

text \<open>
  The last part of the \<^verbatim>\<open>try\<close> block of \<^verbatim>\<open>log_attendance\<close>, from the insert of the
  attendance record on. The state is returned also when an exception is raised: what
  was stored before the exception stays stored.
\<close>

definition insert_attendance ::
  "(request \<Rightarrow> bool) \<Rightarrow> clock \<Rightarrow> string \<Rightarrow> window \<Rightarrow> string \<Rightarrow> string \<Rightarrow> state
     \<Rightarrow> state \<times> (exn + bool)" where
  "insert_attendance fails clk student_matric window student_id class_session_id s =
     (let today_date = utc_today clk;
          attendance_status = status window;
          payload = \<lparr>att_pk = ''att_'' @ student_id @ ''_'' @ class_session_id @ ''_'' @ today_date,
                     att_student_id = student_id,
                     att_class_session_id = class_session_id,
                     att_status = attendance_status,
                     att_timestamp = utc_now_iso clk\<rparr>;
          d1 = send InsertAttendance (db s)
      in if fails InsertAttendance then (s\<lparr>db := d1\<rparr>, Inl APIError)
         else (let d2 = send SelectCourseAttendance
                          (d1\<lparr>attendance_records := attendance_records d1 @ [payload]\<rparr>)
               in if fails SelectCourseAttendance then (s\<lparr>db := d2\<rparr>, Inl APIError)
                  else (let course_attendance_res =
                              take 1 (filter (\<lambda>r. ca_student_id r = student_id \<and>
                                                   ca_course_id r = course_id window)
                                        (student_course_attendance d2))
                        in if course_attendance_res = [] then
                             (let d3 = send InsertCourseAttendance d2 in
                              if fails InsertCourseAttendance then (s\<lparr>db := d3\<rparr>, Inl APIError)
                              else (let s3 = s\<lparr>db := d3\<lparr>student_course_attendance :=
                                                 student_course_attendance d3 @
                                                 [\<lparr>ca_student_id = student_id,
                                                   ca_course_id = course_id window,
                                                   absence_count = 0\<rparr>]\<rparr>\<rparr>
                                    in case mark_logged (section_id window) student_matric s3 of
                                         Inl e \<Rightarrow> (s3, Inl e)
                                       | Inr s4 \<Rightarrow> (s4, Inr True)))
                           else (case mark_logged (section_id window) student_matric
                                        (s\<lparr>db := d2\<rparr>) of
                                   Inl e \<Rightarrow> (s\<lparr>db := d2\<rparr>, Inl e)
                                 | Inr s4 \<Rightarrow> (s4, Inr True)))))"

text \<open>The \<^verbatim>\<open>try\<close> block of \<^verbatim>\<open>log_attendance\<close>.\<close>

definition log_attendance_try ::
  "(request \<Rightarrow> bool) \<Rightarrow> clock \<Rightarrow> string \<Rightarrow> window \<Rightarrow> state \<Rightarrow> state \<times> (exn + bool)" where
  "log_attendance_try fails clk student_matric window s =
     (case get_student_cached fails student_matric s of
        (s1, None) \<Rightarrow> (s1, Inr False)
      | (s1, Some stu) \<Rightarrow>
          (let student_id = stu_id stu;
               d2 = send SelectEnrollment (db s1);
               s2 = s1\<lparr>db := d2\<rparr>
           in if fails SelectEnrollment then (s2, Inl APIError)
              else (let enroll_check =
                          take 1 (filter (\<lambda>r. enr_student_id r = student_id \<and>
                                               enr_section_id r = section_id window)
                                    (student_section_enrollments d2))
                    in if enroll_check = [] then (s2, Inr False)
                       else (case get_or_create_class_session fails clk (section_id window)
                                    (Some (start_time window)) s2 of
                               (s3, None) \<Rightarrow> (s3, Inr False)
                             | (s3, Some class_session_id) \<Rightarrow>
                                 if class_session_id = [] then (s3, Inr False)
                                 else (let d4 = send SelectAttendance (db s3);
                                           s4 = s3\<lparr>db := d4\<rparr>
                                       in if fails SelectAttendance then (s4, Inl APIError)
                                          else (let existing =
                                                      take 1 (filter
                                                        (\<lambda>r. att_student_id r = student_id \<and>
                                                             att_class_session_id r = class_session_id)
                                                        (attendance_records d4))
                                                in if existing \<noteq> [] then
                                                     (case mark_logged (section_id window)
                                                             student_matric s4 of
                                                        Inl e \<Rightarrow> (s4, Inl e)
                                                      | Inr s5 \<Rightarrow> (s5, Inr False))
                                                   else insert_attendance fails clk student_matric
                                                          window student_id class_session_id s4))))))"

text \<open>
  The first statement of \<^verbatim>\<open>log_attendance\<close> after the guard:
  \<^verbatim>\<open>if section_id not in attendance_logged_today: attendance_logged_today[section_id] = set()\<close>.
\<close>

definition ensure_section :: "string \<Rightarrow> state \<Rightarrow> state" where
  "ensure_section sec s =
     (if sec \<notin> dom (attendance_logged_today s)
      then s\<lparr>attendance_logged_today := (attendance_logged_today s)(sec \<mapsto> {})\<rparr>
      else s)"

text \<open>
  \<^verbatim>\<open>log_attendance(student_matric, status="present")\<close>. The parameter \<^verbatim>\<open>status\<close> is
  never read by the body and is left out. An exception of the \<^verbatim>\<open>try\<close> block gives
  \<^verbatim>\<open>False\<close>. The lookup \<^verbatim>\<open>attendance_logged_today[section_id]\<close> before the \<^verbatim>\<open>try\<close>
  follows the statement that creates the key, so its \<^verbatim>\<open>KeyError\<close> branch is not
  reachable; it is written as a no-write result.
\<close>

definition log_attendance ::
  "(request \<Rightarrow> bool) \<Rightarrow> clock \<Rightarrow> string \<Rightarrow> state \<Rightarrow> state \<times> bool" where
  "log_attendance fails clk student_matric s =
     (case current_attendance_window s of
        None \<Rightarrow> (s, False)
      | Some window \<Rightarrow>
          if \<not> supabase s then (s, False)
          else (let s0 = ensure_section (section_id window) s
                in case attendance_logged_today s0 (section_id window) of
                     None \<Rightarrow> (s0, False)
                   | Some logged \<Rightarrow>
                       if student_matric \<in> logged then (s0, False)
                       else (case log_attendance_try fails clk student_matric window s0 of
                               (s', Inl e) \<Rightarrow> (s', False)
                             | (s', Inr written) \<Rightarrow> (s', written))))"

section \<open>Dispatch queue\<close>

text \<open>
  \<^verbatim>\<open>queue.Queue(maxsize)\<close>, restricted to what the producer uses: \<^verbatim>\<open>full()\<close> is
  \<^verbatim>\<open>0 < maxsize <= qsize()\<close>, and \<^verbatim>\<open>put_nowait\<close> raises \<^verbatim>\<open>queue.Full\<close> instead of waiting.
\<close>

record 'a py_queue =
  maxsize :: nat
  items :: "'a list"

definition full :: "'a py_queue \<Rightarrow> bool" where
  "full q = (0 < maxsize q \<and> maxsize q \<le> length (items q))"

definition put_nowait :: "'a py_queue \<Rightarrow> 'a \<Rightarrow> exn + 'a py_queue" where
  "put_nowait q x = (if full q then Inl QueueFull else Inr (q\<lparr>items := items q @ [x]\<rparr>))"

definition face_queue :: "'a py_queue" where
  "face_queue = \<lparr>maxsize = 3, items = []\<rparr>"

text \<open>
  The hand-over of a frame in \<^verbatim>\<open>generate_frames\<close>: only while a window is active and on
  every fifth frame, and only into a queue that is not full; \<^verbatim>\<open>queue.Full\<close> is swallowed.
\<close>

definition enqueue_frame :: "'a py_queue \<Rightarrow> 'a \<Rightarrow> 'a py_queue" where
  "enqueue_frame q frame =
     (if \<not> full q then (case put_nowait q frame of Inl e \<Rightarrow> q | Inr q' \<Rightarrow> q') else q)"

definition generate_frames_dispatch ::
  "window option \<Rightarrow> nat \<Rightarrow> 'a \<Rightarrow> 'a py_queue \<Rightarrow> 'a py_queue" where
  "generate_frames_dispatch window frame_counter frame q =
     (if window \<noteq> None \<and> frame_counter mod PROCESS_EVERY_N_FRAMES = 0
      then enqueue_frame q frame else q)"

section \<open>Camera capture\<close>

text \<open>
  What the camera does in one pass of the outer loop of \<^verbatim>\<open>capture_frames\<close>: the device
  does not open; an exception is raised before the read loop; or the device opens, \<open>n\<close>
  frames are read, and the read loop ends with a failed read, an exception, or the
  shutdown event. \<open>ShutdownSet\<close> is the shutdown event seen by the loop condition.
\<close>

datatype read_end = ReadFailed | ReadRaised | ShutdownInLoop

datatype camera_event = OpenFailed | OpenRaised | Opened nat read_end | ShutdownSet

datatype capture_state = Retrying nat | GaveUp nat | ShutDown nat

text \<open>
  The outer loop over the camera's behaviour. While the list lasts, each pass consumes
  one event; \<open>Retrying n\<close> says that the loop is still running, with \<^verbatim>\<open>retry_count = n\<close>,
  when the list is used up. The loop condition reads the shutdown event first and the
  retry counter second.
\<close>

fun capture_frames :: "nat \<Rightarrow> camera_event list \<Rightarrow> capture_state" where
  "capture_frames retry_count [] =
     (if retry_count < MAX_CAMERA_RETRIES then Retrying retry_count else GaveUp retry_count)"
| "capture_frames retry_count (ev # evs) =
     (if ev = ShutdownSet then ShutDown retry_count
      else if \<not> retry_count < MAX_CAMERA_RETRIES then GaveUp retry_count
      else (case ev of
              ShutdownSet \<Rightarrow> ShutDown retry_count
            | OpenFailed \<Rightarrow> capture_frames (retry_count + 1) evs
            | OpenRaised \<Rightarrow> capture_frames (retry_count + 1) evs
            | Opened n ReadFailed \<Rightarrow> capture_frames 0 evs
            | Opened n ReadRaised \<Rightarrow> capture_frames (0 + 1) evs
            | Opened n ShutdownInLoop \<Rightarrow> ShutDown 0))"

section \<open>Predicates used by the statements, and sample inputs\<close>

text \<open>A schedule row whose two time strings \<^verbatim>\<open>parse_time_string\<close> accepts.\<close>

definition parses :: "schedule_row \<Rightarrow> bool" where
  "parses r =
     (case parse_time_string (sched_start_time r) of
        Inl _ \<Rightarrow> False
      | Inr _ \<Rightarrow> (case parse_time_string (sched_end_time r) of Inl _ \<Rightarrow> False | Inr _ \<Rightarrow> True))"

text \<open>
  The window of a row is open at \<open>now\<close>, in whole minutes of the day:
  \<open>start - EARLY \<le> now \<le> end - BUFFER\<close> with every time cut to \<^verbatim>\<open>hour * 60 + minute\<close>.
\<close>

definition entry_open :: "py_time \<Rightarrow> schedule_row \<Rightarrow> bool" where
  "entry_open now r =
     (case parse_time_string (sched_start_time r) of
        Inl _ \<Rightarrow> False
      | Inr start_t \<Rightarrow>
          (case parse_time_string (sched_end_time r) of
             Inl _ \<Rightarrow> False
           | Inr end_t \<Rightarrow>
               time_to_minutes start_t - EARLY_WINDOW_MINUTES \<le> time_to_minutes now \<and>
               time_to_minutes now \<le> time_to_minutes end_t - END_BUFFER_MINUTES))"

text \<open>\<open>now\<close> is past the late cut-off of a row, in whole minutes of the day.\<close>

definition entry_late :: "py_time \<Rightarrow> schedule_row \<Rightarrow> bool" where
  "entry_late now r =
     (case parse_time_string (sched_start_time r) of
        Inl _ \<Rightarrow> False
      | Inr start_t \<Rightarrow> time_to_minutes now > time_to_minutes start_t + LATE_GRACE_MINUTES)"

text \<open>
  The conditions as the specification words them, on instants: a time of day is read
  with its seconds, and the three margins are 15 minutes of 60 seconds.
\<close>

definition instant_seconds :: "py_time \<Rightarrow> int" where
  "instant_seconds t = hour t * 3600 + minute t * 60 + second t"

definition spec_window_open :: "py_time \<Rightarrow> py_time \<Rightarrow> py_time \<Rightarrow> bool" where
  "spec_window_open now start_t end_t =
     (instant_seconds start_t - 60 * EARLY_WINDOW_MINUTES \<le> instant_seconds now \<and>
      instant_seconds now \<le> instant_seconds end_t - 60 * END_BUFFER_MINUTES)"

definition spec_late :: "py_time \<Rightarrow> py_time \<Rightarrow> bool" where
  "spec_late now start_t = (instant_seconds now > instant_seconds start_t + 60 * LATE_GRACE_MINUTES)"

text \<open>
  Sample inputs: section \<open>S1\<close> of course \<open>C1\<close> meets on Monday and on Tuesday from 09:00
  to 10:30; student \<open>A1\<close> is enrolled in it, student \<open>B2\<close> is not.
\<close>

definition demo_row :: schedule_row where
  "demo_row = \<lparr>sched_section_id = ''S1'', day_of_week = ''Monday'',
      sched_start_time = ''09:00:00'', sched_end_time = ''10:30:00'',
      sections = \<lparr>sec_course_id = ''C1'', sec_name = ''Section A''\<rparr>\<rparr>"

definition demo_db :: database where
  "demo_db = \<lparr>section_schedules = [demo_row, demo_row\<lparr>day_of_week := ''Tuesday''\<rparr>],
      students = [\<lparr>student_pk = ''7'', matric_no = ''A1'', nickname = ''Ali''\<rparr>,
                  \<lparr>student_pk = ''8'', matric_no = ''B2'', nickname = ''Bea''\<rparr>],
      student_section_enrollments = [\<lparr>enr_student_id = ''7'', enr_section_id = ''S1''\<rparr>],
      class_sessions = [], attendance_records = [], student_course_attendance = [],
      requests = []\<rparr>"

definition demo_state :: state where
  "demo_state = \<lparr>supabase = True, current_attendance_window = None, last_window_check = 0,
      attendance_logged_today = Map.empty, student_cache = Map.empty, db = demo_db\<rparr>"

definition demo_clock :: "int \<Rightarrow> int \<Rightarrow> int \<Rightarrow> clock" where
  "demo_clock h m sec = \<lparr>time_time = 1000, current_day = ''Monday'',
      current_time = \<lparr>hour = h, minute = m, second = sec\<rparr>,
      today = ''2025-01-06'', now_time_iso = ''09:05:00'',
      utc_today = ''2025-01-06'', utc_now_iso = ''2025-01-06T01:05:00''\<rparr>"

definition demo_window :: window where
  "demo_window = \<lparr>section_id = ''S1'', course_id = ''C1'', section_name = ''Section A'',
      start_time = ''09:00:00'', end_time = ''10:30:00'', is_late = False,
      window_start = ''08:45'', late_cutoff = ''09:15'', window_end = ''10:15'',
      status = ''present''\<rparr>"

definition active_state :: state where
  "active_state = demo_state\<lparr>current_attendance_window := Some demo_window\<rparr>"

definition tuesday_clock :: clock where
  "tuesday_clock = \<lparr>time_time = 87400, current_day = ''Tuesday'',
      current_time = \<lparr>hour = 9, minute = 0, second = 0\<rparr>,
      today = ''2025-01-07'', now_time_iso = ''09:00:00'',
      utc_today = ''2025-01-07'', utc_now_iso = ''2025-01-07T01:00:00''\<rparr>"

definition no_faults :: "request \<Rightarrow> bool" where
  "no_faults r = False"

definition schedules_down :: "request \<Rightarrow> bool" where
  "schedules_down r = (r = SelectSchedules)"

definition insert_down :: "request \<Rightarrow> bool" where
  "insert_down r = (r = InsertAttendance)"



text \<open>
  The state after student \<open>A1\<close> was logged for \<open>S1\<close> on Monday, and that state after the
  refresh of Tuesday 09:00 has made the window of \<open>S1\<close> current again.
\<close>

definition monday_logged :: state where
  "monday_logged = fst (log_attendance no_faults (demo_clock 9 0 0) ''A1'' active_state)"

definition tuesday_state :: state where
  "tuesday_state = fst (get_current_attendance_window no_faults tuesday_clock monday_logged)"

text \<open>
  The persons marked as logged for a section (none when the section has no entry), the
  attendance records of a person in a session, whether an enrolment row exists, and the
  requests that a call added to the log of the storage service.
\<close>

definition logged_today :: "state \<Rightarrow> string \<Rightarrow> string set" where
  "logged_today s sec = (case attendance_logged_today s sec of None \<Rightarrow> {} | Some logged \<Rightarrow> logged)"

definition records_for :: "database \<Rightarrow> string \<Rightarrow> string \<Rightarrow> attendance_row list" where
  "records_for d student_id session =
     filter (\<lambda>r. att_student_id r = student_id \<and> att_class_session_id r = session)
       (attendance_records d)"

definition enrolled_in :: "database \<Rightarrow> string \<Rightarrow> string \<Rightarrow> bool" where
  "enrolled_in d student_id sec =
     (filter (\<lambda>r. enr_student_id r = student_id \<and> enr_section_id r = sec)
       (student_section_enrollments d) \<noteq> [])"

definition new_requests :: "state \<Rightarrow> state \<Rightarrow> request list" where
  "new_requests s s' = drop (length (requests (db s))) (requests (db s'))"

text \<open>
  \<open>unchanged t u\<close>: state \<open>u\<close> differs from \<open>t\<close> at most in the lookup cache, the class
  sessions and the request log. \<open>todays_session\<close>: the identifier of the first session
  row of the section for today's date. \<open>eligible\<close>: a window is active, the client
  exists, the person is not marked as logged, the lookup resolves the person to a
  student who is enrolled in the section, and no attendance record of that student
  exists for today's session of the section.
\<close>

definition unchanged :: "state \<Rightarrow> state \<Rightarrow> bool" where
  "unchanged t u =
     (supabase u = supabase t \<and> current_attendance_window u = current_attendance_window t \<and>
      last_window_check u = last_window_check t \<and>
      attendance_logged_today u = attendance_logged_today t \<and>
      section_schedules (db u) = section_schedules (db t) \<and>
      students (db u) = students (db t) \<and>
      student_section_enrollments (db u) = student_section_enrollments (db t) \<and>
      attendance_records (db u) = attendance_records (db t) \<and>
      student_course_attendance (db u) = student_course_attendance (db t))"

definition todays_session :: "clock \<Rightarrow> string \<Rightarrow> state \<Rightarrow> string option" where
  "todays_session clk sec s =
     (case filter (\<lambda>r. ses_section_id r = sec \<and> class_date r = today clk)
             (class_sessions (db s)) of
        [] \<Rightarrow> None
      | row # _ \<Rightarrow> Some (session_pk row))"

definition eligible :: "clock \<Rightarrow> string \<Rightarrow> state \<Rightarrow> bool" where
  "eligible clk m s =
     (case current_attendance_window s of
        None \<Rightarrow> False
      | Some w \<Rightarrow>
          supabase s \<and> m \<notin> logged_today s (section_id w) \<and>
          (case snd (get_student_cached no_faults m s) of
             None \<Rightarrow> False
           | Some stu \<Rightarrow>
               enrolled_in (db s) (stu_id stu) (section_id w) \<and>
               (case snd (get_or_create_class_session no_faults clk (section_id w)
                            (Some (start_time w)) s) of
                  None \<Rightarrow> False
                | Some cs \<Rightarrow> cs \<noteq> [] \<and> records_for (db s) (stu_id stu) cs = [])))"

text \<open>
  The status of the window that a refresh returns for the sample schedule at the time
  \<open>h:m:sec\<close> of a Monday; \<^verbatim>\<open>None\<close> when no window is returned.
\<close>

definition status_at :: "int \<Rightarrow> int \<Rightarrow> int \<Rightarrow> string option" where
  "status_at h m sec =
     map_option status (snd (get_current_attendance_window no_faults (demo_clock h m sec) demo_state))"

section \<open>The window resolver\<close>

lemma schedules_for_day_send [simp]:
  "schedules_for_day day (send r d) = schedules_for_day day d"
  by (simp add: schedules_for_day_def send_def)

lemma parse_demo_times:
  "parse_time_string ''09:00:00'' = Inr \<lparr>hour = 9, minute = 0, second = 0\<rparr>"
  "parse_time_string ''10:30:00'' = Inr \<lparr>hour = 10, minute = 30, second = 0\<rparr>"
  by code_simp+

text \<open>
  The loop returns the window of the first open row, provided every row parses; it
  returns \<^verbatim>\<open>None\<close> when no row is open.
\<close>

lemma scan_schedules_first_open:
  assumes "\<forall>r \<in> set rows. parses r"
  shows "(scan_schedules (time_to_minutes now) rows = Inr None \<and>
            (\<forall>r \<in> set rows. \<not> entry_open now r)) \<or>
         (\<exists>w pre r post. scan_schedules (time_to_minutes now) rows = Inr (Some w) \<and>
            rows = pre @ r # post \<and> (\<forall>p \<in> set pre. \<not> entry_open now p) \<and>
            entry_open now r \<and>
            section_id w = sched_section_id r \<and>
            course_id w = sec_course_id (sections r) \<and>
            section_name w = sec_name (sections r) \<and>
            start_time w = sched_start_time r \<and>
            end_time w = sched_end_time r \<and>
            is_late w = entry_late now r \<and>
            status w = (if entry_late now r then ''late'' else ''present''))"
  using assms
proof (induction rows)
  case Nil
  then show ?case by simp
next
  case (Cons r rows)
  from Cons.prems obtain st en where
    st: "parse_time_string (sched_start_time r) = Inr st" and
    en: "parse_time_string (sched_end_time r) = Inr en"
    by (auto simp: parses_def split: sum.splits)
  show ?case
  proof (cases "entry_open now r")
    case True
    have "\<exists>w. scan_schedules (time_to_minutes now) (r # rows) = Inr (Some w) \<and>
            section_id w = sched_section_id r \<and>
            course_id w = sec_course_id (sections r) \<and>
            section_name w = sec_name (sections r) \<and>
            start_time w = sched_start_time r \<and>
            end_time w = sched_end_time r \<and>
            is_late w = entry_late now r \<and>
            status w = (if entry_late now r then ''late'' else ''present'')"
      using True st en by (simp add: entry_open_def entry_late_def Let_def)
    then obtain w where w: "scan_schedules (time_to_minutes now) (r # rows) = Inr (Some w)"
            "section_id w = sched_section_id r"
            "course_id w = sec_course_id (sections r)"
            "section_name w = sec_name (sections r)"
            "start_time w = sched_start_time r"
            "end_time w = sched_end_time r"
            "is_late w = entry_late now r"
            "status w = (if entry_late now r then ''late'' else ''present'')"
      by blast
    have "r # rows = [] @ r # rows \<and> (\<forall>p \<in> set []. \<not> entry_open now p)" by simp
    with w True show ?thesis by blast
  next
    case False
    have step: "scan_schedules (time_to_minutes now) (r # rows) =
                  scan_schedules (time_to_minutes now) rows"
      using False st en by (auto simp: entry_open_def Let_def)
    from Cons.prems have "\<forall>r \<in> set rows. parses r" by simp
    from Cons.IH [OF this] show ?thesis
    proof (elim disjE exE conjE)
      assume "scan_schedules (time_to_minutes now) rows = Inr None"
        and "\<forall>r \<in> set rows. \<not> entry_open now r"
      with False step show ?thesis by simp
    next
      fix w pre r' post
      assume a: "scan_schedules (time_to_minutes now) rows = Inr (Some w)"
        "rows = pre @ r' # post" "\<forall>p \<in> set pre. \<not> entry_open now p"
        "entry_open now r'"
        "section_id w = sched_section_id r'"
        "course_id w = sec_course_id (sections r')"
        "section_name w = sec_name (sections r')"
        "start_time w = sched_start_time r'"
        "end_time w = sched_end_time r'"
        "is_late w = entry_late now r'"
        "status w = (if entry_late now r' then ''late'' else ''present'')"
      have "r # rows = (r # pre) @ r' # post \<and> (\<forall>p \<in> set (r # pre). \<not> entry_open now p)"
        using a(2,3) False by simp
      with a step show ?thesis by metis
    qed
  qed
qed

text \<open>A refresh whose query succeeds returns what the loop finds in today's rows.\<close>

lemma refresh_result:
  assumes "\<not> time_time clk - last_window_check s < WINDOW_CHECK_INTERVAL"
    and "supabase s" and "\<not> fails SelectSchedules"
  shows "snd (get_current_attendance_window fails clk s) =
           (case scan_schedules (time_to_minutes (current_time clk))
                   (schedules_for_day (current_day clk) (db s)) of
              Inl e \<Rightarrow> None
            | Inr w \<Rightarrow> w)"
  using assms
  by (auto simp: get_current_attendance_window_def window_detection_def Let_def
      split: sum.splits)

text \<open>A window that the loop returns comes from an open row and carries its status.\<close>

lemma scan_schedules_Some:
  "scan_schedules (time_to_minutes now) rows = Inr (Some w) \<Longrightarrow>
     \<exists>r \<in> set rows. entry_open now r \<and> section_id w = sched_section_id r \<and>
        start_time w = sched_start_time r \<and> is_late w = entry_late now r \<and>
        status w = (if entry_late now r then ''late'' else ''present'')"
proof (induction rows)
  case Nil
  then show ?case by simp
next
  case (Cons r rows)
  from Cons.prems obtain st en where
    st: "parse_time_string (sched_start_time r) = Inr st" and
    en: "parse_time_string (sched_end_time r) = Inr en"
    by (auto split: sum.splits)
  show ?case
  proof (cases "entry_open now r")
    case True
    with Cons.prems st en show ?thesis
      by (auto simp: entry_open_def entry_late_def Let_def)
  next
    case False
    with Cons.prems st en
    have "scan_schedules (time_to_minutes now) rows = Inr (Some w)"
      by (auto simp: entry_open_def Let_def)
    from Cons.IH [OF this] show ?thesis by auto
  qed
qed

lemma refresh_Some:
  assumes "\<not> time_time clk - last_window_check s < WINDOW_CHECK_INTERVAL"
    and "snd (get_current_attendance_window fails clk s) = Some w"
  shows "scan_schedules (time_to_minutes (current_time clk))
           (schedules_for_day (current_day clk) (db s)) = Inr (Some w)"
  using assms
  by (auto simp: get_current_attendance_window_def window_detection_def Let_def
      split: sum.splits if_splits)

text \<open>
  Claim C1, as amended. When the cached value is stale, the client exists, the schedule
  query succeeds and every row of today parses, \<^verbatim>\<open>get_current_attendance_window\<close> returns
  \<^verbatim>\<open>None\<close> if and only if no row of today is open at the current time, and a window it
  returns belongs to the first row, in the order of the query's result, that is open.
  "Open" compares whole minutes of the day: the seconds of the current time and of the
  start and end times are dropped, so that a row is open from \<open>start - 15\<close> minutes until
  the last second of the minute \<open>end - 15\<close>.
\<close>

theorem window_open_iff_minutes:
  assumes elapsed: "\<not> time_time clk - last_window_check s < WINDOW_CHECK_INTERVAL"
    and client: "supabase s"
    and reachable: "\<not> fails SelectSchedules"
    and wf: "\<forall>r \<in> set (schedules_for_day (current_day clk) (db s)). parses r"
  shows "(snd (get_current_attendance_window fails clk s) = None \<longleftrightarrow>
            (\<forall>r \<in> set (schedules_for_day (current_day clk) (db s)).
                \<not> entry_open (current_time clk) r)) \<and>
         (\<forall>w. snd (get_current_attendance_window fails clk s) = Some w \<longrightarrow>
            (\<exists>pre r post.
                schedules_for_day (current_day clk) (db s) = pre @ r # post \<and>
                (\<forall>p \<in> set pre. \<not> entry_open (current_time clk) p) \<and>
                entry_open (current_time clk) r \<and>
                section_id w = sched_section_id r \<and>
                start_time w = sched_start_time r \<and>
                end_time w = sched_end_time r))"
proof -
  let ?rows = "schedules_for_day (current_day clk) (db s)"
  let ?res = "snd (get_current_attendance_window fails clk s)"
  have res: "?res = (case scan_schedules (time_to_minutes (current_time clk)) ?rows of
                       Inl e \<Rightarrow> None | Inr w \<Rightarrow> w)"
    using elapsed client reachable by (rule refresh_result [where fails = fails])
  from scan_schedules_first_open [OF wf, of "current_time clk"] show ?thesis
  proof (elim disjE exE conjE)
    assume "scan_schedules (time_to_minutes (current_time clk)) ?rows = Inr None"
      and "\<forall>r \<in> set ?rows. \<not> entry_open (current_time clk) r"
    with res show ?thesis by simp
  next
    fix w pre r post
    assume a: "scan_schedules (time_to_minutes (current_time clk)) ?rows = Inr (Some w)"
      "?rows = pre @ r # post" "\<forall>p \<in> set pre. \<not> entry_open (current_time clk) p"
      "entry_open (current_time clk) r"
      "section_id w = sched_section_id r"
      "start_time w = sched_start_time r"
      "end_time w = sched_end_time r"
    from a(1) res have r: "?res = Some w" by simp
    have "r \<in> set ?rows" using a(2) by simp
    with a(4) have "\<not> (\<forall>r \<in> set ?rows. \<not> entry_open (current_time clk) r)" by blast
    moreover have "\<exists>pre r post. ?rows = pre @ r # post \<and>
                (\<forall>p \<in> set pre. \<not> entry_open (current_time clk) p) \<and>
                entry_open (current_time clk) r \<and>
                section_id w = sched_section_id r \<and>
                start_time w = sched_start_time r \<and>
                end_time w = sched_end_time r"
      using a by blast
    ultimately show ?thesis using r by simp
  qed
qed

text \<open>
  The statement of C1 at a sample input: Monday 09:00:00, one row for section \<open>S1\<close> from
  09:00 to 10:30. All four hypotheses hold there and the window of \<open>S1\<close> is returned.
\<close>

theorem window_open_iff_minutes_witness:
  "\<not> time_time (demo_clock 9 0 0) - last_window_check demo_state < WINDOW_CHECK_INTERVAL \<and>
   supabase demo_state \<and> \<not> no_faults SelectSchedules \<and>
   list_all parses (schedules_for_day (current_day (demo_clock 9 0 0)) (db demo_state)) \<and>
   (\<exists>w pre r post.
      snd (get_current_attendance_window no_faults (demo_clock 9 0 0) demo_state) = Some w \<and>
      schedules_for_day (current_day (demo_clock 9 0 0)) (db demo_state) = pre @ r # post \<and>
      (\<forall>p \<in> set pre. \<not> entry_open (current_time (demo_clock 9 0 0)) p) \<and>
      entry_open (current_time (demo_clock 9 0 0)) r \<and>
      section_id w = sched_section_id r \<and>
      start_time w = sched_start_time r \<and>
      end_time w = sched_end_time r \<and>
      section_id w = ''S1'')"
proof -
  let ?res = "snd (get_current_attendance_window no_faults (demo_clock 9 0 0) demo_state)"
  have h1: "\<not> time_time (demo_clock 9 0 0) - last_window_check demo_state < WINDOW_CHECK_INTERVAL"
    by (simp add: demo_clock_def demo_state_def WINDOW_CHECK_INTERVAL_def)
  have h2: "supabase demo_state" by (simp add: demo_state_def)
  have h3: "\<not> no_faults SelectSchedules" by (simp add: no_faults_def)
  have h4: "list_all parses (schedules_for_day (current_day (demo_clock 9 0 0)) (db demo_state))"
    by (simp add: schedules_for_day_def demo_clock_def demo_state_def demo_db_def demo_row_def
        parses_def parse_demo_times)
  then have h4': "\<forall>r \<in> set (schedules_for_day (current_day (demo_clock 9 0 0)) (db demo_state)).
                    parses r"
    by (simp add: list_all_iff)
  have "map_option section_id ?res = Some ''S1''"
    by code_simp
  then obtain w where w: "?res = Some w" "section_id w = ''S1''"
    by auto
  from window_open_iff_minutes [where fails = no_faults, OF h1 h2 h3 h4'] w(1)
  have "\<exists>pre r post.
      schedules_for_day (current_day (demo_clock 9 0 0)) (db demo_state) = pre @ r # post \<and>
      (\<forall>p \<in> set pre. \<not> entry_open (current_time (demo_clock 9 0 0)) p) \<and>
      entry_open (current_time (demo_clock 9 0 0)) r \<and>
      section_id w = sched_section_id r \<and>
      start_time w = sched_start_time r \<and>
      end_time w = sched_end_time r"
    by blast
  with w h1 h2 h3 h4 show ?thesis by blast
qed

text \<open>
  Claim C1 as worded fails on instants that are not whole minutes. At 10:15:30 the
  instant is later than \<open>end - BUFFER\<close> = 10:15:00, so the worded condition is false, and
  the function still returns the window of the row.
\<close>

theorem window_open_instant_counterexample:
  "parse_time_string (sched_start_time demo_row) = Inr \<lparr>hour = 9, minute = 0, second = 0\<rparr> \<and>
   parse_time_string (sched_end_time demo_row) = Inr \<lparr>hour = 10, minute = 30, second = 0\<rparr> \<and>
   \<not> spec_window_open \<lparr>hour = 10, minute = 15, second = 30\<rparr>
       \<lparr>hour = 9, minute = 0, second = 0\<rparr> \<lparr>hour = 10, minute = 30, second = 0\<rparr> \<and>
   snd (get_current_attendance_window no_faults (demo_clock 10 15 30) demo_state) =
     Some (demo_window\<lparr>is_late := True, status := ''late''\<rparr>)"
  by code_simp

text \<open>
  Claim C2, as amended. A window \<open>w\<close> returned by a refresh belongs to a row of today
  whose start time \<open>start_t\<close> parses, and its status is \<open>late\<close> if and only if the minute
  of the day of the current time is greater than that of \<open>start_t\<close> plus 15, and
  \<open>present\<close> otherwise; the flag \<open>is_late\<close> agrees. Seconds are dropped on both sides,
  so the status turns to late at \<open>start + 16\<close> minutes sharp. For the entry 09:00 to 10:30:
  no window at 08:44:59, present at 08:45, 08:46, 09:15:30 and 09:15:59, late at 09:16,
  10:15 and 10:15:59, no window at 10:16.
\<close>

theorem status_late_iff_minutes:
  assumes elapsed: "\<not> time_time clk - last_window_check s < WINDOW_CHECK_INTERVAL"
    and result: "snd (get_current_attendance_window fails clk s) = Some w"
  shows "(\<exists>r start_t. r \<in> set (schedules_for_day (current_day clk) (db s)) \<and>
            section_id w = sched_section_id r \<and>
            start_time w = sched_start_time r \<and>
            parse_time_string (start_time w) = Inr start_t \<and>
            (status w = ''late'' \<longleftrightarrow>
               time_to_minutes (current_time clk) > time_to_minutes start_t + LATE_GRACE_MINUTES) \<and>
            (status w = ''present'' \<longleftrightarrow>
               \<not> time_to_minutes (current_time clk) > time_to_minutes start_t + LATE_GRACE_MINUTES) \<and>
            (is_late w \<longleftrightarrow>
               time_to_minutes (current_time clk) > time_to_minutes start_t + LATE_GRACE_MINUTES)) \<and>
         status_at 8 44 59 = None \<and>
         status_at 8 45 0 = Some ''present'' \<and>
         status_at 8 46 0 = Some ''present'' \<and>
         status_at 9 15 30 = Some ''present'' \<and>
         status_at 9 15 59 = Some ''present'' \<and>
         status_at 9 16 0 = Some ''late'' \<and>
         status_at 10 15 0 = Some ''late'' \<and>
         status_at 10 15 59 = Some ''late'' \<and>
         status_at 10 16 0 = None"
proof -
  from refresh_Some [OF elapsed result]
  obtain r where r: "r \<in> set (schedules_for_day (current_day clk) (db s))"
    "entry_open (current_time clk) r" "section_id w = sched_section_id r"
    "start_time w = sched_start_time r" "is_late w = entry_late (current_time clk) r"
    "status w = (if entry_late (current_time clk) r then ''late'' else ''present'')"
    using scan_schedules_Some by blast
  from r(2) obtain start_t where st: "parse_time_string (sched_start_time r) = Inr start_t"
    by (auto simp: entry_open_def split: sum.splits)
  have late: "entry_late (current_time clk) r \<longleftrightarrow>
      time_to_minutes (current_time clk) > time_to_minutes start_t + LATE_GRACE_MINUTES"
    using st by (simp add: entry_late_def)
  have general: "\<exists>r start_t. r \<in> set (schedules_for_day (current_day clk) (db s)) \<and>
            section_id w = sched_section_id r \<and>
            start_time w = sched_start_time r \<and>
            parse_time_string (start_time w) = Inr start_t \<and>
            (status w = ''late'' \<longleftrightarrow>
               time_to_minutes (current_time clk) > time_to_minutes start_t + LATE_GRACE_MINUTES) \<and>
            (status w = ''present'' \<longleftrightarrow>
               \<not> time_to_minutes (current_time clk) > time_to_minutes start_t + LATE_GRACE_MINUTES) \<and>
            (is_late w \<longleftrightarrow>
               time_to_minutes (current_time clk) > time_to_minutes start_t + LATE_GRACE_MINUTES)"
    using r st late by (intro exI [of _ r] exI [of _ start_t]) simp
  have "status_at 8 44 59 = None" by code_simp
  moreover have "status_at 8 45 0 = Some ''present''" by code_simp
  moreover have "status_at 8 46 0 = Some ''present''" by code_simp
  moreover have "status_at 9 15 30 = Some ''present''" by code_simp
  moreover have "status_at 9 15 59 = Some ''present''" by code_simp
  moreover have "status_at 9 16 0 = Some ''late''" by code_simp
  moreover have "status_at 10 15 0 = Some ''late''" by code_simp
  moreover have "status_at 10 15 59 = Some ''late''" by code_simp
  moreover have "status_at 10 16 0 = None" by code_simp
  ultimately show ?thesis using general by blast
qed

text \<open>
  The statement of C2 at a sample input: at 09:16:00 the refresh returns the window of
  \<open>S1\<close> with status late, and 09:16 is more than 15 minutes past the start 09:00.
\<close>

theorem status_late_iff_minutes_witness:
  "\<not> time_time (demo_clock 9 16 0) - last_window_check demo_state < WINDOW_CHECK_INTERVAL \<and>
   snd (get_current_attendance_window no_faults (demo_clock 9 16 0) demo_state) =
     Some (demo_window\<lparr>is_late := True, status := ''late''\<rparr>) \<and>
   (\<exists>start_t. parse_time_string (start_time demo_window) = Inr start_t \<and>
      time_to_minutes (current_time (demo_clock 9 16 0)) >
        time_to_minutes start_t + LATE_GRACE_MINUTES)"
proof -
  let ?w = "demo_window\<lparr>is_late := True, status := ''late''\<rparr>"
  have h1: "\<not> time_time (demo_clock 9 16 0) - last_window_check demo_state < WINDOW_CHECK_INTERVAL"
    by (simp add: demo_clock_def demo_state_def WINDOW_CHECK_INTERVAL_def)
  have h2: "snd (get_current_attendance_window no_faults (demo_clock 9 16 0) demo_state) = Some ?w"
    by code_simp
  have "status ?w = ''late''" "start_time ?w = start_time demo_window"
    by (simp_all add: demo_window_def)
  with status_late_iff_minutes [OF h1 h2] h1 h2 show ?thesis
    by auto
qed

text \<open>
  Claim C2 as worded fails at 09:15:30: the instant is strictly after
  \<open>start + LATE_GRACE\<close> = 09:15:00, and the status of the returned window is present.
\<close>

theorem status_late_instant_counterexample:
  "parse_time_string (sched_start_time demo_row) = Inr \<lparr>hour = 9, minute = 0, second = 0\<rparr> \<and>
   spec_late \<lparr>hour = 9, minute = 15, second = 30\<rparr> \<lparr>hour = 9, minute = 0, second = 0\<rparr> \<and>
   snd (get_current_attendance_window no_faults (demo_clock 9 15 30) demo_state) =
     Some demo_window \<and>
   status demo_window = ''present''"
  by code_simp

text \<open>
  Claim C3, as amended. When a refresh is due, the client exists and the schedule query
  raises, \<^verbatim>\<open>get_current_attendance_window\<close> returns \<^verbatim>\<open>None\<close> without raising, stores
  \<^verbatim>\<open>None\<close> as the current window whatever window was known before, and stamps the
  refresh time; every call within the next 30 seconds returns \<^verbatim>\<open>None\<close> as well.
\<close>

theorem refresh_failure_clears_window:
  assumes elapsed: "\<not> time_time clk - last_window_check s < WINDOW_CHECK_INTERVAL"
    and client: "supabase s"
    and unreachable: "fails SelectSchedules"
  shows "get_current_attendance_window fails clk s =
           (s\<lparr>last_window_check := time_time clk, current_attendance_window := None,
               db := send SelectSchedules (db s)\<rparr>, None) \<and>
         (\<forall>fails' clk'. time_time clk' - time_time clk < WINDOW_CHECK_INTERVAL \<longrightarrow>
            snd (get_current_attendance_window fails' clk'
                   (fst (get_current_attendance_window fails clk s))) = None)"
proof -
  have first: "get_current_attendance_window fails clk s =
           (s\<lparr>last_window_check := time_time clk, current_attendance_window := None,
               db := send SelectSchedules (db s)\<rparr>, None)"
    using assms
    by (simp add: get_current_attendance_window_def window_detection_def Let_def)
  have "snd (get_current_attendance_window fails' clk'
               (fst (get_current_attendance_window fails clk s))) = None"
    if "time_time clk' - time_time clk < WINDOW_CHECK_INTERVAL" for fails' clk'
  proof -
    have "snd (get_current_attendance_window fails' clk'
                 (s\<lparr>last_window_check := time_time clk, current_attendance_window := None,
                     db := send SelectSchedules (db s)\<rparr>)) = None"
      using that by (simp add: get_current_attendance_window_def Let_def)
    then show ?thesis by (simp only: first fst_conv)
  qed
  with first show ?thesis by blast
qed

text \<open>
  The statement of C3 at a sample input: a state that knows the window of \<open>S1\<close>, a due
  refresh, and a schedule query that raises.
\<close>

theorem refresh_failure_clears_window_witness:
  "\<not> time_time (demo_clock 9 0 0)
       - last_window_check (demo_state\<lparr>current_attendance_window := Some demo_window\<rparr>)
       < WINDOW_CHECK_INTERVAL \<and>
   supabase (demo_state\<lparr>current_attendance_window := Some demo_window\<rparr>) \<and>
   schedules_down SelectSchedules \<and>
   get_current_attendance_window schedules_down (demo_clock 9 0 0)
       (demo_state\<lparr>current_attendance_window := Some demo_window\<rparr>) =
     (demo_state\<lparr>current_attendance_window := Some demo_window,
                 last_window_check := time_time (demo_clock 9 0 0),
                 current_attendance_window := None,
                 db := send SelectSchedules (db demo_state)\<rparr>, None)"
proof -
  let ?s = "demo_state\<lparr>current_attendance_window := Some demo_window\<rparr>"
  have h1: "\<not> time_time (demo_clock 9 0 0) - last_window_check ?s < WINDOW_CHECK_INTERVAL"
    by (simp add: demo_clock_def demo_state_def WINDOW_CHECK_INTERVAL_def)
  have h2: "supabase ?s" by (simp add: demo_state_def)
  have h3: "schedules_down SelectSchedules" by (simp add: schedules_down_def)
  from refresh_failure_clears_window [where fails = schedules_down, OF h1 h2 h3] h1 h2 h3
  show ?thesis by simp
qed

text \<open>
  Claim C3 as worded fails there: the last known window is the window of \<open>S1\<close>, the
  call returns \<^verbatim>\<open>None\<close> instead, and the window is gone from the state.
\<close>

theorem refresh_failure_counterexample:
  "current_attendance_window (demo_state\<lparr>current_attendance_window := Some demo_window\<rparr>)
     = Some demo_window \<and>
   schedules_down SelectSchedules \<and>
   snd (get_current_attendance_window schedules_down (demo_clock 9 0 0)
          (demo_state\<lparr>current_attendance_window := Some demo_window\<rparr>)) = None \<and>
   current_attendance_window
     (fst (get_current_attendance_window schedules_down (demo_clock 9 0 0)
          (demo_state\<lparr>current_attendance_window := Some demo_window\<rparr>))) = None"
  by code_simp

section \<open>The stages of the attendance writer\<close>

lemma take1_Nil [simp]: "take (Suc 0) xs = [] \<longleftrightarrow> xs = []"
  by (cases xs) simp_all

subsection \<open>What the student lookup changes\<close>

lemma gsc_globals [simp]:
  "supabase (fst (get_student_cached fails m s)) = supabase s"
  "current_attendance_window (fst (get_student_cached fails m s)) = current_attendance_window s"
  "last_window_check (fst (get_student_cached fails m s)) = last_window_check s"
  "attendance_logged_today (fst (get_student_cached fails m s)) = attendance_logged_today s"
  by (simp_all add: get_student_cached_def Let_def split: option.splits list.splits)

lemma gsc_tables [simp]:
  "section_schedules (db (fst (get_student_cached fails m s))) = section_schedules (db s)"
  "students (db (fst (get_student_cached fails m s))) = students (db s)"
  "student_section_enrollments (db (fst (get_student_cached fails m s))) =
     student_section_enrollments (db s)"
  "class_sessions (db (fst (get_student_cached fails m s))) = class_sessions (db s)"
  "attendance_records (db (fst (get_student_cached fails m s))) = attendance_records (db s)"
  "student_course_attendance (db (fst (get_student_cached fails m s))) =
     student_course_attendance (db s)"
  by (simp_all add: get_student_cached_def send_def Let_def split: option.splits list.splits)

lemma gsc_requests [simp]:
  "requests (db (fst (get_student_cached fails m s))) =
     requests (db s) @ (if student_cache s m = None \<and> supabase s then [SelectStudent] else [])"
  by (simp add: get_student_cached_def send_def Let_def split: option.splits list.splits)

lemma gsc_cache [simp]:
  "student_cache (fst (get_student_cached fails m s)) =
     (student_cache s)(m \<mapsto> snd (get_student_cached fails m s))"
  by (auto simp: get_student_cached_def send_def Let_def split: option.splits list.splits)

lemma gsc_snd_cong:
  "student_cache s' m = student_cache s m \<Longrightarrow> supabase s' = supabase s \<Longrightarrow>
   students (db s') = students (db s) \<Longrightarrow>
   snd (get_student_cached fails m s') = snd (get_student_cached fails m s)"
  by (simp add: get_student_cached_def send_def Let_def split: option.splits list.splits)

subsection \<open>What get-or-create changes\<close>

lemma goc_globals [simp]:
  "supabase (fst (get_or_create_class_session fails clk sec st s)) = supabase s"
  "current_attendance_window (fst (get_or_create_class_session fails clk sec st s)) =
     current_attendance_window s"
  "last_window_check (fst (get_or_create_class_session fails clk sec st s)) = last_window_check s"
  "attendance_logged_today (fst (get_or_create_class_session fails clk sec st s)) =
     attendance_logged_today s"
  "student_cache (fst (get_or_create_class_session fails clk sec st s)) = student_cache s"
  by (simp_all add: get_or_create_class_session_def Let_def split: list.splits)

lemma goc_tables [simp]:
  "section_schedules (db (fst (get_or_create_class_session fails clk sec st s))) =
     section_schedules (db s)"
  "students (db (fst (get_or_create_class_session fails clk sec st s))) = students (db s)"
  "student_section_enrollments (db (fst (get_or_create_class_session fails clk sec st s))) =
     student_section_enrollments (db s)"
  "attendance_records (db (fst (get_or_create_class_session fails clk sec st s))) =
     attendance_records (db s)"
  "student_course_attendance (db (fst (get_or_create_class_session fails clk sec st s))) =
     student_course_attendance (db s)"
  by (simp_all add: get_or_create_class_session_def send_def Let_def split: list.splits)

lemma goc_requests [simp]:
  "requests (db (fst (get_or_create_class_session fails clk sec st s))) =
     requests (db s) @
       (if \<not> supabase s then []
        else if fails SelectSession \<or>
                filter (\<lambda>r. ses_section_id r = sec \<and> class_date r = today clk)
                  (class_sessions (db s)) \<noteq> []
        then [SelectSession] else [SelectSession, InsertSession])"
  by (simp add: get_or_create_class_session_def send_def Let_def split: list.splits)

lemma goc_snd_cong:
  "supabase s' = supabase s \<Longrightarrow> class_sessions (db s') = class_sessions (db s) \<Longrightarrow>
   snd (get_or_create_class_session fails clk sec st s') =
   snd (get_or_create_class_session fails clk sec st s)"
  by (simp add: get_or_create_class_session_def send_def Let_def split: list.splits)

lemma goc_found:
  assumes "snd (get_or_create_class_session fails clk sec st s) = Some cs"
  shows "\<exists>row rest.
           filter (\<lambda>r. ses_section_id r = sec \<and> class_date r = today clk)
             (class_sessions (db (fst (get_or_create_class_session fails clk sec st s))))
             = row # rest \<and> session_pk row = cs"
  using assms
  by (auto simp: get_or_create_class_session_def send_def Let_def split: list.splits if_splits)

subsection \<open>Requests leave the tables alone\<close>

lemma send_tables [simp]:
  "section_schedules (send r d) = section_schedules d"
  "students (send r d) = students d"
  "student_section_enrollments (send r d) = student_section_enrollments d"
  "class_sessions (send r d) = class_sessions d"
  "attendance_records (send r d) = attendance_records d"
  "student_course_attendance (send r d) = student_course_attendance d"
  "requests (send r d) = requests d @ [r]"
  by (simp_all add: send_def)

subsection \<open>The key of the section\<close>

lemma ensure_section_frame [simp]:
  "supabase (ensure_section sec s) = supabase s"
  "current_attendance_window (ensure_section sec s) = current_attendance_window s"
  "last_window_check (ensure_section sec s) = last_window_check s"
  "student_cache (ensure_section sec s) = student_cache s"
  "db (ensure_section sec s) = db s"
  by (simp_all add: ensure_section_def)

lemma ensure_section_logged [simp]:
  "attendance_logged_today (ensure_section sec s) sec = Some (logged_today s sec)"
  "logged_today (ensure_section sec s) sec' = logged_today s sec'"
  by (auto simp: ensure_section_def logged_today_def split: option.splits)


lemma log_attendance_active:
  assumes "current_attendance_window s = Some w" and "supabase s"
  shows "log_attendance fails clk m s =
           (if m \<in> logged_today s (section_id w) then (ensure_section (section_id w) s, False)
            else (fst (log_attendance_try fails clk m w (ensure_section (section_id w) s)),
                  case snd (log_attendance_try fails clk m w (ensure_section (section_id w) s)) of
                    Inl e \<Rightarrow> False | Inr written \<Rightarrow> written))"
  using assms
  by (simp add: log_attendance_def Let_def case_prod_unfold split: sum.splits)

subsection \<open>The paths through the try block\<close>

lemma new_requests_append [simp]:
  "requests (db u) = requests (db t) @ rs \<Longrightarrow> new_requests t u = rs"
  by (simp add: new_requests_def)

lemma goc_todays_session:
  assumes "snd (get_or_create_class_session fails clk sec st s) = Some cs"
  shows "todays_session clk sec (fst (get_or_create_class_session fails clk sec st s)) = Some cs"
  using goc_found [OF assms] by (auto simp: todays_session_def)

lemma goc_of_todays_session:
  assumes "supabase s" and "todays_session clk sec s = Some cs"
  shows "snd (get_or_create_class_session no_faults clk sec st s) = Some cs"
  using assms
  by (auto simp: todays_session_def get_or_create_class_session_def Let_def no_faults_def
      split: list.splits)

lemma log_attendance_try_cases [case_names NoStudent EnrollRaised NotEnrolled NoSession
    EmptySession ExistingRaised Duplicate Insert]:
  fixes fails clk m w t
  defines "att \<equiv> log_attendance_try fails clk m w t"
  obtains
    (NoStudent) u where "snd (get_student_cached fails m t) = None" "att = (u, Inr False)"
      "unchanged t u" "class_sessions (db u) = class_sessions (db t)"
      "set (new_requests t u) \<subseteq> {SelectStudent, SelectEnrollment}"
  | (EnrollRaised) stu u where "snd (get_student_cached fails m t) = Some stu"
      "fails SelectEnrollment" "att = (u, Inl APIError)"
      "unchanged t u" "class_sessions (db u) = class_sessions (db t)"
      "set (new_requests t u) \<subseteq> {SelectStudent, SelectEnrollment}"
  | (NotEnrolled) stu u where "snd (get_student_cached fails m t) = Some stu"
      "\<not> enrolled_in (db t) (stu_id stu) (section_id w)" "att = (u, Inr False)"
      "unchanged t u" "class_sessions (db u) = class_sessions (db t)"
      "set (new_requests t u) \<subseteq> {SelectStudent, SelectEnrollment}"
  | (NoSession) stu u where "snd (get_student_cached fails m t) = Some stu"
      "enrolled_in (db t) (stu_id stu) (section_id w)"
      "snd (get_or_create_class_session fails clk (section_id w) (Some (start_time w)) t) = None" "att = (u, Inr False)"
      "unchanged t u" "InsertAttendance \<notin> set (new_requests t u)"
  | (EmptySession) stu u where "snd (get_student_cached fails m t) = Some stu"
      "enrolled_in (db t) (stu_id stu) (section_id w)"
      "snd (get_or_create_class_session fails clk (section_id w) (Some (start_time w)) t) = Some []" "att = (u, Inr False)"
      "unchanged t u" "InsertAttendance \<notin> set (new_requests t u)"
  | (ExistingRaised) stu u where "snd (get_student_cached fails m t) = Some stu"
      "enrolled_in (db t) (stu_id stu) (section_id w)" "fails SelectAttendance"
      "att = (u, Inl APIError)"
      "unchanged t u" "InsertAttendance \<notin> set (new_requests t u)"
  | (Duplicate) stu cs u where "snd (get_student_cached fails m t) = Some stu"
      "enrolled_in (db t) (stu_id stu) (section_id w)"
      "snd (get_or_create_class_session fails clk (section_id w) (Some (start_time w)) t) = Some cs"
      "records_for (db t) (stu_id stu) cs \<noteq> []"
      "att = (case mark_logged (section_id w) m u of
                Inl e \<Rightarrow> (u, Inl e) | Inr u' \<Rightarrow> (u', Inr False))"
      "unchanged t u" "InsertAttendance \<notin> set (new_requests t u)"
  | (Insert) stu cs u where "snd (get_student_cached fails m t) = Some stu"
      "enrolled_in (db t) (stu_id stu) (section_id w)"
      "snd (get_or_create_class_session fails clk (section_id w) (Some (start_time w)) t) = Some cs"
      "cs \<noteq> []" "records_for (db t) (stu_id stu) cs = []"
      "att = insert_attendance fails clk m w (stu_id stu) cs u"
      "unchanged t u" "student_cache u m = Some (Some stu)"
      "todays_session clk (section_id w) u = Some cs"
proof -
  define g where "g = get_student_cached fails m t"
  define s2 where "s2 = (fst g)\<lparr>db := send SelectEnrollment (db (fst g))\<rparr>"
  define c where
    "c = get_or_create_class_session fails clk (section_id w) (Some (start_time w)) s2"
  define s4 where "s4 = (fst c)\<lparr>db := send SelectAttendance (db (fst c))\<rparr>"
  have u1: "unchanged t (fst g)" and u2: "unchanged t s2"
    and u3: "unchanged t (fst c)" and u4: "unchanged t s4"
    by (simp_all add: unchanged_def s4_def c_def s2_def g_def)
  have cs1: "class_sessions (db (fst g)) = class_sessions (db t)"
    and cs2: "class_sessions (db s2) = class_sessions (db t)"
    by (simp_all add: s2_def g_def)
  have r1: "set (new_requests t (fst g)) \<subseteq> {SelectStudent, SelectEnrollment}"
    and r2: "set (new_requests t s2) \<subseteq> {SelectStudent, SelectEnrollment}"
    and r3: "InsertAttendance \<notin> set (new_requests t (fst c))"
    and r4: "InsertAttendance \<notin> set (new_requests t s4)"
    by (auto simp: new_requests_def s4_def c_def s2_def g_def)
  have cache4: "student_cache s4 m = Some (snd g)"
    by (simp add: s4_def c_def s2_def g_def)
  have ses4: "todays_session clk (section_id w) s4 = Some cs" if "snd c = Some cs" for cs
    using goc_todays_session [of fails clk "section_id w" "Some (start_time w)" s2 cs] that
    by (simp add: c_def [symmetric] s4_def todays_session_def)
  have gt: "snd c = snd (get_or_create_class_session fails clk (section_id w) (Some (start_time w)) t)"
    unfolding c_def using u2 cs2 by (intro goc_snd_cong) (simp_all add: unchanged_def)
  have enr: "student_section_enrollments (db (fst g)) = student_section_enrollments (db t)"
    using u1 by (simp add: unchanged_def)
  have rec: "attendance_records (db (fst c)) = attendance_records (db t)"
    using u3 by (simp add: unchanged_def)
  show ?thesis
  proof (cases "snd g")
    case None
    then have "att = (fst g, Inr False)"
      by (simp add: att_def log_attendance_try_def g_def case_prod_unfold)
    with None show ?thesis
      using u1 cs1 r1 by (intro NoStudent [of "fst g"]) (simp_all add: g_def)
  next
    case (Some stu)
    note stu = Some
    have "att =
      (if fails SelectEnrollment then (s2, Inl APIError)
       else if take 1 (filter (\<lambda>r. enr_student_id r = stu_id stu \<and>
                                    enr_section_id r = section_id w)
                         (student_section_enrollments (db (fst g)))) = [] then (s2, Inr False)
       else (case snd c of
               None \<Rightarrow> (fst c, Inr False)
             | Some cs \<Rightarrow>
                 if cs = [] then (fst c, Inr False)
                 else if fails SelectAttendance then (s4, Inl APIError)
                 else if take 1 (filter (\<lambda>r. att_student_id r = stu_id stu \<and>
                                              att_class_session_id r = cs)
                                   (attendance_records (db (fst c)))) \<noteq> [] then
                   (case mark_logged (section_id w) m s4 of
                      Inl e \<Rightarrow> (s4, Inl e) | Inr s5 \<Rightarrow> (s5, Inr False))
                 else insert_attendance fails clk m w (stu_id stu) cs s4))"
      unfolding att_def log_attendance_try_def g_def [symmetric] case_prod_unfold Let_def
        s2_def [symmetric] c_def [symmetric] s4_def [symmetric]
      using stu by (simp cong: if_cong option.case_cong)
    then have unfold: "att =
      (if fails SelectEnrollment then (s2, Inl APIError)
       else if \<not> enrolled_in (db t) (stu_id stu) (section_id w) then (s2, Inr False)
       else (case snd c of
               None \<Rightarrow> (fst c, Inr False)
             | Some cs \<Rightarrow>
                 if cs = [] then (fst c, Inr False)
                 else if fails SelectAttendance then (s4, Inl APIError)
                 else if records_for (db t) (stu_id stu) cs \<noteq> [] then
                   (case mark_logged (section_id w) m s4 of
                      Inl e \<Rightarrow> (s4, Inl e) | Inr s5 \<Rightarrow> (s5, Inr False))
                 else insert_attendance fails clk m w (stu_id stu) cs s4))"
      by (simp add: enr rec enrolled_in_def records_for_def cong: if_cong option.case_cong)
    have stu': "snd (get_student_cached fails m t) = Some stu"
      using stu by (simp add: g_def)
    show ?thesis
    proof (cases "fails SelectEnrollment")
      case True
      with unfold have "att = (s2, Inl APIError)" by simp
      with stu' True u2 cs2 r2 show ?thesis by (intro EnrollRaised [of stu s2])
    next
      case se: False
      show ?thesis
      proof (cases "enrolled_in (db t) (stu_id stu) (section_id w)")
        case False
        with unfold se have "att = (s2, Inr False)" by simp
        with stu' False u2 cs2 r2 show ?thesis by (intro NotEnrolled [of stu s2])
      next
        case en: True
        show ?thesis
        proof (cases "snd c")
          case None
          with unfold se en have "att = (fst c, Inr False)" by simp
          with stu' en u3 r3 gt None show ?thesis
            by (intro NoSession [of stu "fst c"]) simp_all
        next
          case (Some cs)
          note cs = Some
          have cst: "snd (get_or_create_class_session fails clk (section_id w) (Some (start_time w)) t) = Some cs"
            using gt cs by simp
          show ?thesis
          proof (cases "cs = []")
            case True
            with unfold se en cs have "att = (fst c, Inr False)" by simp
            with stu' en u3 r3 cst True show ?thesis
              by (intro EmptySession [of stu "fst c"]) simp_all
          next
            case ne: False
            show ?thesis
            proof (cases "fails SelectAttendance")
              case True
              with unfold se en cs ne have "att = (s4, Inl APIError)" by simp
              with stu' en True u4 r4 show ?thesis by (intro ExistingRaised [of stu s4])
            next
              case sa: False
              show ?thesis
              proof (cases "records_for (db t) (stu_id stu) cs = []")
                case True
                with unfold se en cs ne sa
                have "att = insert_attendance fails clk m w (stu_id stu) cs s4" by simp
                moreover have "student_cache s4 m = Some (Some stu)"
                  using cache4 stu by simp
                ultimately show ?thesis
                  using stu' en ne True u4 ses4 [OF cs] cst
                  by (intro Insert [of stu cs s4]) simp_all
              next
                case False
                with unfold se en cs ne sa
                have "att = (case mark_logged (section_id w) m s4 of
                               Inl e \<Rightarrow> (s4, Inl e) | Inr s5 \<Rightarrow> (s5, Inr False))" by simp
                with stu' en False u4 r4 cst show ?thesis
                  by (intro Duplicate [of stu cs s4]) simp_all
              qed
            qed
          qed
        qed
      qed
    qed
  qed
qed

subsection \<open>The insert of the record\<close>

lemma insert_attendance_failed:
  "fails InsertAttendance \<Longrightarrow>
     insert_attendance fails clk m w sid cs s =
       (s\<lparr>db := send InsertAttendance (db s)\<rparr>, Inl APIError)"
  by (simp add: insert_attendance_def Let_def)


lemma insert_attendance_no_faults:
  assumes "attendance_logged_today s (section_id w) = Some L"
  shows "snd (insert_attendance no_faults clk m w sid cs s) = Inr True"
  using assms
  by (simp add: insert_attendance_def Let_def mark_logged_def no_faults_def)

subsection \<open>Calls of the writer\<close>

lemma gsc_hit:
  "student_cache s m = Some c \<Longrightarrow> get_student_cached fails m s = (s, c)"
  by (simp add: get_student_cached_def)

lemma unchanged_logged_today:
  "unchanged t u \<Longrightarrow> logged_today u sec = logged_today t sec"
  by (simp add: unchanged_def logged_today_def)

lemma unchanged_ensure_section [simp]:
  "new_requests s (ensure_section sec s) = []"
  "new_requests (ensure_section sec s) u = new_requests s u"
  by (simp_all add: new_requests_def)

lemma attempt_result:
  assumes "current_attendance_window s = Some w" and "supabase s"
    and "log_attendance fails clk m s = (s', b)"
    and "m \<notin> logged_today s (section_id w)"
  shows "\<exists>x. log_attendance_try fails clk m w (ensure_section (section_id w) s) = (s', x) \<and>
             (b \<longleftrightarrow> x = Inr True)"
  using assms
  by (cases "log_attendance_try fails clk m w (ensure_section (section_id w) s)")
     (auto simp: log_attendance_active split: sum.splits)


lemma eligible_written:
  assumes "eligible clk m s"
  shows "snd (log_attendance no_faults clk m s) = True"
proof -
  from assms obtain w stu cs where w: "current_attendance_window s = Some w"
    and sup: "supabase s" and notin: "m \<notin> logged_today s (section_id w)"
    and stu: "snd (get_student_cached no_faults m s) = Some stu"
    and enr: "enrolled_in (db s) (stu_id stu) (section_id w)"
    and cs: "snd (get_or_create_class_session no_faults clk (section_id w)
                    (Some (start_time w)) s) = Some cs"
    and ne: "cs \<noteq> []" and norec: "records_for (db s) (stu_id stu) cs = []"
    by (auto simp: eligible_def split: option.splits)
  let ?t = "ensure_section (section_id w) s"
  have stu_t: "snd (get_student_cached no_faults m ?t) = Some stu"
    using stu gsc_snd_cong [of ?t m s no_faults] by simp
  have cs_t: "snd (get_or_create_class_session no_faults clk (section_id w)
                    (Some (start_time w)) ?t) = Some cs"
    using cs goc_snd_cong [of ?t s no_faults clk "section_id w" "Some (start_time w)"] by simp
  have "snd (log_attendance_try no_faults clk m w ?t) = Inr True"
  proof (cases rule: log_attendance_try_cases [where fails = no_faults and m = m and t = "?t"
        and clk = clk and w = w])
    case (NoStudent u)
    with stu_t show ?thesis by simp
  next
    case (EnrollRaised stu' u)
    then show ?thesis by (simp add: no_faults_def)
  next
    case (NotEnrolled stu' u)
    with stu_t enr show ?thesis by simp
  next
    case (NoSession stu' u)
    with cs_t show ?thesis by simp
  next
    case (EmptySession stu' u)
    with cs_t ne show ?thesis by simp
  next
    case (ExistingRaised stu' u)
    then show ?thesis by (simp add: no_faults_def)
  next
    case (Duplicate stu' cs' u)
    with stu_t cs_t norec show ?thesis by simp
  next
    case (Insert stu' cs' u)
    have "attendance_logged_today u (section_id w) = Some (logged_today s (section_id w))"
      using Insert(7) by (simp add: unchanged_def)
    from insert_attendance_no_faults [OF this] Insert(6) show ?thesis by simp
  qed
  then show ?thesis
    using notin by (simp add: log_attendance_active [OF w sup])
qed

section \<open>The attendance writer\<close>

text \<open>
  Claim C10. A call of \<^verbatim>\<open>log_attendance\<close> made while no attendance window is current,
  or while the storage client does not exist, returns \<^verbatim>\<open>False\<close> and leaves the whole
  state as it was: no request is added to the log of the storage service, no table
  changes, and the map of persons already logged is the same.
\<close>

theorem no_window_no_write:
  assumes "current_attendance_window s = None \<or> \<not> supabase s"
  shows "log_attendance fails clk m s = (s, False)"
  using assms by (auto simp: log_attendance_def split: option.splits)

text \<open>
  The statement of C10 at a sample input: the sample state has no current window; the
  call returns \<^verbatim>\<open>False\<close>, the state is the same and no request has been sent.
\<close>

theorem no_window_no_write_witness:
  "(current_attendance_window demo_state = None \<or> \<not> supabase demo_state) \<and>
   log_attendance no_faults (demo_clock 9 0 0) ''A1'' demo_state = (demo_state, False) \<and>
   requests (db (fst (log_attendance no_faults (demo_clock 9 0 0) ''A1'' demo_state))) = []"
proof -
  have h: "current_attendance_window demo_state = None \<or> \<not> supabase demo_state"
    by (simp add: demo_state_def)
  have "requests (db demo_state) = []"
    by (simp add: demo_state_def demo_db_def)
  with no_window_no_write [OF h, of no_faults "demo_clock 9 0 0" "''A1''"] h
  show ?thesis by simp
qed




text \<open>
  Claim C6. When a call of \<^verbatim>\<open>log_attendance\<close> sends the insert of the attendance record
  and that insert raises, the call returns \<^verbatim>\<open>False\<close>, the tables of attendance records
  and of per-course absence rows are as before, the set of persons logged is the same
  for every section, and the person is still eligible afterwards: a retry with the
  same clock and a working storage returns \<^verbatim>\<open>True\<close>.
\<close>

theorem failed_insert_leaves_retry_possible:
  assumes ins: "fails InsertAttendance"
    and sent: "InsertAttendance \<in> set (new_requests s (fst (log_attendance fails clk m s)))"
  shows "\<not> snd (log_attendance fails clk m s) \<and>
         student_course_attendance (db (fst (log_attendance fails clk m s))) =
           student_course_attendance (db s) \<and>
         attendance_records (db (fst (log_attendance fails clk m s))) =
           attendance_records (db s) \<and>
         (\<forall>sec. logged_today (fst (log_attendance fails clk m s)) sec = logged_today s sec) \<and>
         eligible clk m (fst (log_attendance fails clk m s)) \<and>
         snd (log_attendance no_faults clk m (fst (log_attendance fails clk m s)))"
proof -
  let ?s' = "fst (log_attendance fails clk m s)"
  let ?b = "snd (log_attendance fails clk m s)"
  have call: "log_attendance fails clk m s = (?s', ?b)" by simp
  have nonempty: "new_requests s ?s' \<noteq> []" using sent by auto
  obtain w where w: "current_attendance_window s = Some w" and sup: "supabase s"
  proof (cases "current_attendance_window s")
    case None
    then have "?s' = s" by (simp add: log_attendance_def)
    with nonempty show ?thesis by (simp add: new_requests_def)
  next
    case (Some w)
    show ?thesis
    proof (cases "supabase s")
      case True
      with Some show ?thesis by (rule that)
    next
      case False
      with Some have "?s' = s" by (simp add: log_attendance_def)
      with nonempty show ?thesis by (simp add: new_requests_def)
    qed
  qed
  let ?t = "ensure_section (section_id w) s"
  have notin: "m \<notin> logged_today s (section_id w)"
  proof
    assume "m \<in> logged_today s (section_id w)"
    then have "?s' = ?t" by (simp add: log_attendance_active [OF w sup])
    with nonempty show False by simp
  qed
  from attempt_result [OF w sup call notin]
  obtain x where att: "log_attendance_try fails clk m w ?t = (?s', x)"
    and b: "?b \<longleftrightarrow> x = Inr True"
    by blast
  show ?thesis
  proof (cases rule: log_attendance_try_cases [where fails = fails and m = m and t = "?t"
        and clk = clk and w = w])
    case (NoStudent u)
    with att sent show ?thesis by auto
  next
    case (EnrollRaised stu u)
    with att sent show ?thesis by auto
  next
    case (NotEnrolled stu u)
    with att sent show ?thesis by auto
  next
    case (NoSession stu u)
    with att sent show ?thesis by auto
  next
    case (EmptySession stu u)
    with att sent show ?thesis by auto
  next
    case (ExistingRaised stu u)
    with att sent show ?thesis by auto
  next
    case (Duplicate stu cs u)
    have "requests (db ?s') = requests (db u)"
      using Duplicate(5) att by (auto simp: mark_logged_def split: option.splits)
    then have "new_requests s ?s' = new_requests ?t u" by (simp add: new_requests_def)
    with Duplicate(7) sent show ?thesis by simp
  next
    case (Insert stu cs u)
    have s': "?s' = u\<lparr>db := send InsertAttendance (db u)\<rparr>" and x: "x = Inl APIError"
      using Insert(6) att ins by (simp_all add: insert_attendance_failed)
    have u: "supabase u = supabase s" "current_attendance_window u = current_attendance_window s"
      "attendance_logged_today u = attendance_logged_today ?t"
      "attendance_records (db u) = attendance_records (db s)"
      "student_course_attendance (db u) = student_course_attendance (db s)"
      "student_section_enrollments (db u) = student_section_enrollments (db s)"
      using Insert(7) by (simp_all add: unchanged_def)
    have lt: "logged_today ?s' sec = logged_today s sec" for sec
    proof -
      have "logged_today ?s' sec = logged_today u sec"
        by (simp add: s' logged_today_def)
      also have "\<dots> = logged_today ?t sec"
        by (rule unchanged_logged_today [OF Insert(7)])
      finally show ?thesis by simp
    qed
    have cache: "student_cache ?s' m = Some (Some stu)"
      using Insert(8) by (simp add: s')
    have stu': "snd (get_student_cached no_faults m ?s') = Some stu"
      using gsc_hit [OF cache] by simp
    have ses: "todays_session clk (section_id w) ?s' = Some cs"
      using Insert(9) by (simp add: s' todays_session_def)
    have sup': "supabase ?s'" and w': "current_attendance_window ?s' = Some w"
      using u sup w by (simp_all add: s')
    have cs': "snd (get_or_create_class_session no_faults clk (section_id w)
                      (Some (start_time w)) ?s') = Some cs"
      by (rule goc_of_todays_session [OF sup' ses])
    have enr': "enrolled_in (db ?s') (stu_id stu) (section_id w)"
      using Insert(2) u(6) by (simp add: s' enrolled_in_def)
    have rec': "records_for (db ?s') (stu_id stu) cs = []"
      using Insert(5) u(4) by (simp add: s' records_for_def)
    have el: "eligible clk m ?s'"
      using w' sup' notin lt stu' enr' cs' Insert(4) rec' by (simp add: eligible_def)
    have "\<not> ?b" using b x by simp
    moreover have "student_course_attendance (db ?s') = student_course_attendance (db s)"
      "attendance_records (db ?s') = attendance_records (db s)"
      using u by (simp_all add: s')
    ultimately show ?thesis
      using lt el eligible_written [OF el] by simp
  qed
qed

text \<open>
  The statement of C6 at a sample input: the insert of the attendance record raises for
  student \<open>A1\<close>; the call sent the insert, returns \<^verbatim>\<open>False\<close>, creates no absence row,
  and the retry writes.
\<close>

theorem failed_insert_leaves_retry_possible_witness:
  "insert_down InsertAttendance \<and>
   InsertAttendance \<in> set (new_requests active_state
      (fst (log_attendance insert_down (demo_clock 9 0 0) ''A1'' active_state))) \<and>
   \<not> snd (log_attendance insert_down (demo_clock 9 0 0) ''A1'' active_state) \<and>
   student_course_attendance
      (db (fst (log_attendance insert_down (demo_clock 9 0 0) ''A1'' active_state))) =
     student_course_attendance (db active_state) \<and>
   snd (log_attendance no_faults (demo_clock 9 0 0) ''A1''
          (fst (log_attendance insert_down (demo_clock 9 0 0) ''A1'' active_state)))"
proof -
  have h1: "insert_down InsertAttendance" by (simp add: insert_down_def)
  have h2: "InsertAttendance \<in> set (new_requests active_state
      (fst (log_attendance insert_down (demo_clock 9 0 0) ''A1'' active_state)))"
    by code_simp
  from failed_insert_leaves_retry_possible [where fails = insert_down, OF h1 h2] h1 h2
  show ?thesis by blast
qed

text \<open>
  Claim C7. When the student that the lookup resolves for a person has no enrolment row
  for the section of the current window (or the lookup resolves nobody), the call of
  \<^verbatim>\<open>log_attendance\<close> returns \<^verbatim>\<open>False\<close>, the table of class sessions is unchanged, and the
  call has sent at most the student lookup and the enrolment check: the get-or-create
  of the session is not reached.
\<close>

theorem not_enrolled_no_session:
  assumes w: "current_attendance_window s = Some w"
    and ne: "case snd (get_student_cached fails m s) of
               None \<Rightarrow> True
             | Some stu \<Rightarrow> \<not> enrolled_in (db s) (stu_id stu) (section_id w)"
  shows "\<not> snd (log_attendance fails clk m s) \<and>
         class_sessions (db (fst (log_attendance fails clk m s))) = class_sessions (db s) \<and>
         set (new_requests s (fst (log_attendance fails clk m s)))
           \<subseteq> {SelectStudent, SelectEnrollment}"
proof (cases "supabase s \<and> m \<notin> logged_today s (section_id w)")
  case False
  then have "log_attendance fails clk m s = (s, False) \<or>
             log_attendance fails clk m s = (ensure_section (section_id w) s, False)"
    using w by (cases "supabase s") (simp_all add: log_attendance_active log_attendance_def)
  then show ?thesis by (auto simp: new_requests_def)
next
  case True
  then have sup: "supabase s" and notin: "m \<notin> logged_today s (section_id w)" by simp_all
  let ?s' = "fst (log_attendance fails clk m s)"
  let ?b = "snd (log_attendance fails clk m s)"
  let ?t = "ensure_section (section_id w) s"
  have call: "log_attendance fails clk m s = (?s', ?b)" by simp
  from attempt_result [OF w sup call notin]
  obtain x where att: "log_attendance_try fails clk m w ?t = (?s', x)"
    and b: "?b \<longleftrightarrow> x = Inr True"
    by blast
  have same: "snd (get_student_cached fails m ?t) = snd (get_student_cached fails m s)"
    by (rule gsc_snd_cong) simp_all
  have no: "\<not> (snd (get_student_cached fails m ?t) = Some stu \<and>
               enrolled_in (db ?t) (stu_id stu) (section_id w))" for stu
    using ne same by (auto split: option.splits)
  show ?thesis
  proof (cases rule: log_attendance_try_cases [where fails = fails and m = m and t = "?t"
        and clk = clk and w = w])
    case (NoStudent u)
    with att b show ?thesis by auto
  next
    case (EnrollRaised stu u)
    with att b show ?thesis by auto
  next
    case (NotEnrolled stu u)
    with att b show ?thesis by auto
  next
    case (NoSession stu u)
    with no [of stu] show ?thesis by simp
  next
    case (EmptySession stu u)
    with no [of stu] show ?thesis by simp
  next
    case (ExistingRaised stu u)
    with no [of stu] show ?thesis by simp
  next
    case (Duplicate stu cs u)
    with no [of stu] show ?thesis by simp
  next
    case (Insert stu cs u)
    with no [of stu] show ?thesis by simp
  qed
qed

text \<open>
  The statement of C7 at a sample input: student \<open>B2\<close> exists and is not enrolled in
  \<open>S1\<close>; the call returns \<^verbatim>\<open>False\<close> and the class sessions are as before.
\<close>

theorem not_enrolled_no_session_witness:
  "current_attendance_window active_state = Some demo_window \<and>
   (case snd (get_student_cached no_faults ''B2'' active_state) of
      None \<Rightarrow> True
    | Some stu \<Rightarrow> \<not> enrolled_in (db active_state) (stu_id stu) (section_id demo_window)) \<and>
   snd (get_student_cached no_faults ''B2'' active_state) =
     Some \<lparr>stu_id = ''8'', stu_nickname = ''Bea''\<rparr> \<and>
   \<not> snd (log_attendance no_faults (demo_clock 9 0 0) ''B2'' active_state) \<and>
   class_sessions (db (fst (log_attendance no_faults (demo_clock 9 0 0) ''B2'' active_state))) =
     class_sessions (db active_state) \<and>
   set (new_requests active_state
          (fst (log_attendance no_faults (demo_clock 9 0 0) ''B2'' active_state)))
     \<subseteq> {SelectStudent, SelectEnrollment}"
proof -
  have h1: "current_attendance_window active_state = Some demo_window"
    by (simp add: active_state_def)
  have h2: "case snd (get_student_cached no_faults ''B2'' active_state) of
      None \<Rightarrow> True
    | Some stu \<Rightarrow> \<not> enrolled_in (db active_state) (stu_id stu) (section_id demo_window)"
    by code_simp
  have h3: "snd (get_student_cached no_faults ''B2'' active_state) =
     Some \<lparr>stu_id = ''8'', stu_nickname = ''Bea''\<rparr>"
    by code_simp
  from not_enrolled_no_session [where fails = no_faults, OF h1 h2] h1 h2 h3
  show ?thesis by blast
qed

text \<open>
  Claim C4, evaluated on the code. Student \<open>A1\<close> is logged for section \<open>S1\<close> on Monday
  2025-01-06. On Tuesday 2025-01-07 the refresh makes the window of \<open>S1\<close> current again;
  no session and no record exists for Tuesday, yet \<open>A1\<close> is still marked as logged for
  \<open>S1\<close>, the call returns \<^verbatim>\<open>False\<close> and the only attendance record is Monday's. With
  the map of logged persons emptied, the same call writes.
\<close>

theorem dedup_cache_survives_midnight:
  "snd (log_attendance no_faults (demo_clock 9 0 0) ''A1'' active_state) \<and>
   map class_date (class_sessions (db tuesday_state)) = [''2025-01-06''] \<and>
   current_attendance_window tuesday_state = Some demo_window \<and>
   today tuesday_clock = ''2025-01-07'' \<and>
   ''A1'' \<in> logged_today tuesday_state ''S1'' \<and>
   \<not> snd (log_attendance no_faults tuesday_clock ''A1'' tuesday_state) \<and>
   map att_class_session_id
     (attendance_records (db (fst (log_attendance no_faults tuesday_clock ''A1'' tuesday_state))))
     = [''session_S1_2025-01-06''] \<and>
   snd (log_attendance no_faults tuesday_clock ''A1''
          (tuesday_state\<lparr>attendance_logged_today := Map.empty\<rparr>))"
  by code_simp

section \<open>The dispatch queue\<close>

text \<open>
  Claim C8. For a queue of capacity 3: when it holds 3 frames it is full,
  \<^verbatim>\<open>put_nowait\<close> answers \<^verbatim>\<open>queue.Full\<close> instead of waiting, and the hand-over of a frame
  returns the queue unchanged (the frame is dropped); when it holds fewer than 3 frames
  the hand-over appends the frame. The hand-over is a total function that never waits,
  and it keeps the queue within its capacity.
\<close>

theorem full_queue_drops_frame:
  assumes cap: "maxsize q = 3"
  shows "(3 \<le> length (items q) \<longrightarrow>
            full q \<and> put_nowait q frame = Inl QueueFull \<and> enqueue_frame q frame = q \<and>
            generate_frames_dispatch window frame_counter frame q = q) \<and>
         (length (items q) < 3 \<longrightarrow>
            \<not> full q \<and> enqueue_frame q frame = q\<lparr>items := items q @ [frame]\<rparr> \<and>
            (window \<noteq> None \<and> frame_counter mod PROCESS_EVERY_N_FRAMES = 0 \<longrightarrow>
               generate_frames_dispatch window frame_counter frame q =
                 q\<lparr>items := items q @ [frame]\<rparr>)) \<and>
         (length (items q) \<le> 3 \<longrightarrow> length (items (enqueue_frame q frame)) \<le> 3) \<and>
         maxsize (enqueue_frame q frame) = 3"
  using cap
  by (auto simp: full_def put_nowait_def enqueue_frame_def generate_frames_dispatch_def)

text \<open>
  The statement of C8 at sample inputs: a full queue of three frames stays as it is, a
  queue of two frames receives the frame.
\<close>

theorem full_queue_drops_frame_witness:
  "maxsize (face_queue\<lparr>items := [1, 2, 3 :: nat]\<rparr>) = 3 \<and>
   3 \<le> length (items (face_queue\<lparr>items := [1, 2, 3 :: nat]\<rparr>)) \<and>
   put_nowait (face_queue\<lparr>items := [1, 2, 3 :: nat]\<rparr>) 4 = Inl QueueFull \<and>
   enqueue_frame (face_queue\<lparr>items := [1, 2, 3 :: nat]\<rparr>) 4 = face_queue\<lparr>items := [1, 2, 3]\<rparr> \<and>
   maxsize (face_queue\<lparr>items := [1, 2 :: nat]\<rparr>) = 3 \<and>
   length (items (face_queue\<lparr>items := [1, 2 :: nat]\<rparr>)) < 3 \<and>
   enqueue_frame (face_queue\<lparr>items := [1, 2 :: nat]\<rparr>) 4 = face_queue\<lparr>items := [1, 2, 4]\<rparr>"
proof -
  have h1: "maxsize (face_queue\<lparr>items := [1, 2, 3 :: nat]\<rparr>) = 3"
    and h2: "maxsize (face_queue\<lparr>items := [1, 2 :: nat]\<rparr>) = 3"
    by (simp_all add: face_queue_def)
  have l1: "3 \<le> length (items (face_queue\<lparr>items := [1, 2, 3 :: nat]\<rparr>))"
    and l2: "length (items (face_queue\<lparr>items := [1, 2 :: nat]\<rparr>)) < 3"
    by simp_all
  from full_queue_drops_frame [OF h1, of 4 None 0] full_queue_drops_frame [OF h2, of 4 None 0]
    h1 h2 l1 l2
  show ?thesis by simp
qed

section \<open>The camera retry loop\<close>

lemma capture_frames_flapping:
  "capture_frames 0 (replicate k (Opened n ReadFailed)) = Retrying 0"
  by (induction k) (simp_all add: MAX_CAMERA_RETRIES_def)

lemma capture_frames_failed_opens:
  "retry_count \<le> MAX_CAMERA_RETRIES \<Longrightarrow>
   capture_frames retry_count (replicate (MAX_CAMERA_RETRIES - retry_count) OpenFailed @ evs)
     = (if take 1 evs = [ShutdownSet] then ShutDown MAX_CAMERA_RETRIES
        else GaveUp MAX_CAMERA_RETRIES)"
proof (induction "MAX_CAMERA_RETRIES - retry_count" arbitrary: retry_count)
  case 0
  then have "retry_count = MAX_CAMERA_RETRIES" by simp
  then show ?case by (cases evs) simp_all
next
  case (Suc d)
  then have lt: "retry_count < MAX_CAMERA_RETRIES" and
    d: "d = MAX_CAMERA_RETRIES - (retry_count + 1)" by simp_all
  have "MAX_CAMERA_RETRIES - retry_count = Suc (MAX_CAMERA_RETRIES - (retry_count + 1))"
    using lt by simp
  then have "capture_frames retry_count
               (replicate (MAX_CAMERA_RETRIES - retry_count) OpenFailed @ evs) =
             capture_frames (retry_count + 1)
               (replicate (MAX_CAMERA_RETRIES - (retry_count + 1)) OpenFailed @ evs)"
    using lt by simp
  also have "\<dots> = (if take 1 evs = [ShutdownSet] then ShutDown MAX_CAMERA_RETRIES
                     else GaveUp MAX_CAMERA_RETRIES)"
    using Suc.hyps(1) [OF d] lt by simp
  finally show ?case .
qed

lemma capture_frames_gave_up:
  "capture_frames retry_count evs = GaveUp k \<Longrightarrow> MAX_CAMERA_RETRIES \<le> k"
  by (induction retry_count evs rule: capture_frames.induct)
     (auto split: if_splits camera_event.splits read_end.splits)

text \<open>
  Claim C9, as amended. While the loop runs (the counter is below five), the retry
  counter is set to zero every time the device opens, however many frames are then
  read, also none: a pass that ends with a failed read leaves it at zero and a pass that
  ends with an exception after the open leaves it at one; a pass in which the device
  does not open, or an exception is raised before the read loop, adds one. The loop
  never gives up with the counter below five. A device that opens and fails its first
  read every time is retried without bound with the counter at zero; five failed opens
  in a row, counted from zero, end the loop (it gives up, or stops at the shutdown
  event).
\<close>

theorem retry_counter_reset_on_open:
  "(retry_count < MAX_CAMERA_RETRIES \<longrightarrow>
      capture_frames retry_count (Opened n ReadFailed # evs) = capture_frames 0 evs \<and>
      capture_frames retry_count (Opened n ReadRaised # evs) = capture_frames 1 evs \<and>
      capture_frames retry_count (Opened n ShutdownInLoop # evs) = ShutDown 0 \<and>
      capture_frames retry_count (OpenFailed # evs) = capture_frames (retry_count + 1) evs \<and>
      capture_frames retry_count (OpenRaised # evs) = capture_frames (retry_count + 1) evs) \<and>
   (capture_frames retry_count evs = GaveUp j \<longrightarrow> MAX_CAMERA_RETRIES \<le> j) \<and>
   capture_frames 0 (replicate k (Opened n ReadFailed)) = Retrying 0 \<and>
   capture_frames 0 (replicate 5 OpenFailed) = GaveUp 5 \<and>
   capture_frames 0 (replicate 5 OpenFailed @ evs) =
     (if take 1 evs = [ShutdownSet] then ShutDown 5 else GaveUp 5)"
proof -
  have "capture_frames 0 (replicate 5 OpenFailed @ evs) =
          (if take 1 evs = [ShutdownSet] then ShutDown 5 else GaveUp 5)" for evs
    using capture_frames_failed_opens [of 0 evs] by (simp add: MAX_CAMERA_RETRIES_def)
  from this [of "[]"] this [of evs] show ?thesis
    by (simp add: capture_frames_flapping capture_frames_gave_up)
qed

text \<open>
  The statement of C9 at sample inputs: with four failures counted, one open followed by
  a failed read resets the counter, so that four further failed opens leave the loop
  running; an open followed by an exception leaves the counter at one, so that four
  further failed opens end the loop; without an open, the fifth failure ends it.
\<close>

theorem retry_counter_reset_on_open_witness:
  "(4::nat) < MAX_CAMERA_RETRIES \<and>
   capture_frames 4 [Opened 0 ReadFailed, OpenFailed, OpenFailed, OpenFailed, OpenFailed] =
     Retrying 4 \<and>
   capture_frames 4 [Opened 3 ReadRaised, OpenFailed, OpenFailed, OpenFailed, OpenFailed] =
     GaveUp 5 \<and>
   capture_frames 4 [OpenFailed, Opened 0 ReadFailed] = GaveUp 5 \<and>
   MAX_CAMERA_RETRIES \<le> 5"
proof -
  have h: "(4::nat) < MAX_CAMERA_RETRIES" by (simp add: MAX_CAMERA_RETRIES_def)
  have a: "capture_frames 0 [OpenFailed, OpenFailed, OpenFailed, OpenFailed] = Retrying 4"
    by code_simp
  have b: "capture_frames (4 + 1) [Opened 0 ReadFailed] = GaveUp 5"
    by code_simp
  have c: "capture_frames 1 [OpenFailed, OpenFailed, OpenFailed, OpenFailed] = GaveUp 5"
    by code_simp
  from retry_counter_reset_on_open
         [where retry_count = 4 and n = 0 and j = 5 and k = 0
            and evs = "[OpenFailed, OpenFailed, OpenFailed, OpenFailed]"]
    retry_counter_reset_on_open
         [where retry_count = 4 and n = 3 and j = 5 and k = 0
            and evs = "[OpenFailed, OpenFailed, OpenFailed, OpenFailed]"]
    retry_counter_reset_on_open
         [where retry_count = 4 and n = 0 and j = 5 and k = 0 and evs = "[Opened 0 ReadFailed]"]
    retry_counter_reset_on_open
         [where retry_count = 1 and n = 0 and j = 5 and k = 0
            and evs = "[OpenFailed, OpenFailed, OpenFailed, OpenFailed]"]
    h a b c
  show ?thesis by simp
qed

text \<open>
  Claim C9 as worded fails: with the counter at four, a device that opens and fails its
  first read resets the counter to zero, and six such passes in a row, more than the
  five retries allowed, leave the loop running with the counter at zero.
\<close>

theorem flapping_camera_counterexample:
  "capture_frames 4 [Opened 0 ReadFailed] = Retrying 0 \<and>
   capture_frames 0 (replicate 6 (Opened 0 ReadFailed)) = Retrying 0 \<and>
   MAX_CAMERA_RETRIES = 5"
  by code_simp

end
